theory Spec2Isabelle
  imports Main "HOL-Library.Word"
begin

unbundle bit_operations_syntax

section \<open>sajson: a shallow embedding of \<^verbatim>\<open>src/cbits/sajson.hpp\<close>\<close>

text \<open>
  The model follows the header function by function and keeps its names.
  \<^item> A \<^verbatim>\<open>char\<close> of the input is a \<open>byte\<close>; \<^verbatim>\<open>size_t\<close> is a 64-bit word (the
    header stores a \<^verbatim>\<open>double\<close> in \<^verbatim>\<open>sizeof(double) / sizeof(size_t)\<close> words, which is
    one word on the 64-bit hosts modelled here); \<^verbatim>\<open>unsigned\<close> is a 32-bit word.
  \<^item> A \<^verbatim>\<open>char*\<close> into the input is the index of the byte, a \<^verbatim>\<open>size_t*\<close> into the
    arena of \<^verbatim>\<open>single_allocation\<close> is the index of the word: the scratch stack
    and the AST share the one buffer, so both are indices into the same list.
  \<^item> A function that returns \<^verbatim>\<open>0\<close> after \<^verbatim>\<open>make_error\<close> returns the error fields
    \<^verbatim>\<open>make_error\<close> has set: as \<open>Inl\<close> where it only reads the input, as \<open>Failed\<close>
    where it also works on the arena. An access outside the arena is undefined
    behaviour in C++: it is \<open>None\<close> in the operations on the arena and the result
    \<open>Undefined\<close> of the functions that use them.
\<close>

type_synonym byte = "8 word"
type_synonym size_t = "64 word"
type_synonym unsigned = "32 word"

abbreviation ch :: "char \<Rightarrow> byte" where
  "ch \<equiv> of_char"

subsection \<open>Tagged elements\<close>

datatype tag =
  tag_integer | tag_double | tag_null | tag_false | tag_true | tag_string | tag_array | tag_object

text \<open>\<^verbatim>\<open>static_cast<size_t>(t)\<close> and \<^verbatim>\<open>static_cast<tag>(s)\<close> on the values 0 to 7.\<close>

fun size_t_of_tag :: "tag \<Rightarrow> size_t" where
  "size_t_of_tag tag_integer = 0"
| "size_t_of_tag tag_double = 1"
| "size_t_of_tag tag_null = 2"
| "size_t_of_tag tag_false = 3"
| "size_t_of_tag tag_true = 4"
| "size_t_of_tag tag_string = 5"
| "size_t_of_tag tag_array = 6"
| "size_t_of_tag tag_object = 7"

definition tag_of_size_t :: "size_t \<Rightarrow> tag" where
  "tag_of_size_t s =
     (if s = 0 then tag_integer else if s = 1 then tag_double else if s = 2 then tag_null
      else if s = 3 then tag_false else if s = 4 then tag_true else if s = 5 then tag_string
      else if s = 6 then tag_array else tag_object)"

definition TAG_BITS :: nat where
  "TAG_BITS = 3"

definition TAG_MASK :: size_t where
  "TAG_MASK = push_bit TAG_BITS 1 - 1"

definition VALUE_MASK :: size_t where
  "VALUE_MASK = drop_bit TAG_BITS (NOT 0)"

definition ROOT_MARKER :: size_t where
  "ROOT_MARKER = VALUE_MASK"

definition get_element_tag :: "size_t \<Rightarrow> tag" where
  "get_element_tag s = tag_of_size_t (s AND TAG_MASK)"

definition get_element_value :: "size_t \<Rightarrow> size_t" where
  "get_element_value s = drop_bit TAG_BITS s"

definition make_element :: "tag \<Rightarrow> size_t \<Rightarrow> size_t" where
  "make_element t v = size_t_of_tag t OR push_bit TAG_BITS v"

definition should_binary_search :: "nat \<Rightarrow> bool" where
  "should_binary_search len = (len > 100)"

subsection \<open>Byte classes\<close>

definition parse_flags :: "byte list" where
  "parse_flags = [
      0x00, 0x00, 0x00, 0x00, 0x00, 0x00, 0x00, 0x00, 0x00, 0x02, 0x02, 0x00, 0x00, 0x02, 0x00, 0x00,
      0x00, 0x00, 0x00, 0x00, 0x00, 0x00, 0x00, 0x00, 0x00, 0x00, 0x00, 0x00, 0x00, 0x00, 0x00, 0x00,
      0x03, 0x01, 0x00, 0x01, 0x01, 0x01, 0x01, 0x01, 0x01, 0x01, 0x01, 0x01, 0x01, 0x01, 0x11, 0x01,
      0x11, 0x11, 0x11, 0x11, 0x11, 0x11, 0x11, 0x11, 0x11, 0x11, 0x01, 0x01, 0x01, 0x01, 0x01, 0x01,
      0x01, 0x01, 0x01, 0x01, 0x01, 0x11, 0x01, 0x01, 0x01, 0x01, 0x01, 0x01, 0x01, 0x01, 0x01, 0x01,
      0x01, 0x01, 0x01, 0x01, 0x01, 0x01, 0x01, 0x01, 0x01, 0x01, 0x01, 0x01, 0x00, 0x01, 0x01, 0x01,
      0x01, 0x01, 0x01, 0x01, 0x01, 0x11, 0x01, 0x01, 0x01, 0x01, 0x01, 0x01, 0x01, 0x01, 0x01, 0x01,
      0x01, 0x01, 0x01, 0x01, 0x01, 0x01, 0x01, 0x01, 0x01, 0x01, 0x01, 0x01, 0x01, 0x01, 0x01, 0x01,
      0x00, 0x00, 0x00, 0x00, 0x00, 0x00, 0x00, 0x00, 0x00, 0x00, 0x00, 0x00, 0x00, 0x00, 0x00, 0x00,
      0x00, 0x00, 0x00, 0x00, 0x00, 0x00, 0x00, 0x00, 0x00, 0x00, 0x00, 0x00, 0x00, 0x00, 0x00, 0x00,
      0x00, 0x00, 0x00, 0x00, 0x00, 0x00, 0x00, 0x00, 0x00, 0x00, 0x00, 0x00, 0x00, 0x00, 0x00, 0x00,
      0x00, 0x00, 0x00, 0x00, 0x00, 0x00, 0x00, 0x00, 0x00, 0x00, 0x00, 0x00, 0x00, 0x00, 0x00, 0x00,
      0x00, 0x00, 0x00, 0x00, 0x00, 0x00, 0x00, 0x00, 0x00, 0x00, 0x00, 0x00, 0x00, 0x00, 0x00, 0x00,
      0x00, 0x00, 0x00, 0x00, 0x00, 0x00, 0x00, 0x00, 0x00, 0x00, 0x00, 0x00, 0x00, 0x00, 0x00, 0x00,
      0x00, 0x00, 0x00, 0x00, 0x00, 0x00, 0x00, 0x00, 0x00, 0x00, 0x00, 0x00, 0x00, 0x00, 0x00, 0x00,
      0x00, 0x00, 0x00, 0x00, 0x00, 0x00, 0x00, 0x00, 0x00, 0x00, 0x00, 0x00, 0x00, 0x00, 0x00, 0x00]"

definition is_plain_string_character :: "byte \<Rightarrow> bool" where
  "is_plain_string_character c = (parse_flags ! unat c AND 1 \<noteq> 0)"

definition is_whitespace :: "byte \<Rightarrow> bool" where
  "is_whitespace c = (parse_flags ! unat c AND 2 \<noteq> 0)"

subsection \<open>Errors and the document\<close>

datatype error =
  ERROR_NO_ERROR | ERROR_OUT_OF_MEMORY | ERROR_UNEXPECTED_END | ERROR_MISSING_ROOT_ELEMENT
| ERROR_BAD_ROOT | ERROR_EXPECTED_COMMA | ERROR_MISSING_OBJECT_KEY | ERROR_EXPECTED_COLON
| ERROR_EXPECTED_END_OF_INPUT | ERROR_UNEXPECTED_COMMA | ERROR_EXPECTED_VALUE
| ERROR_EXPECTED_NULL | ERROR_EXPECTED_FALSE | ERROR_EXPECTED_TRUE | ERROR_INVALID_NUMBER
| ERROR_MISSING_EXPONENT | ERROR_ILLEGAL_CODEPOINT | ERROR_INVALID_UNICODE_ESCAPE
| ERROR_UNEXPECTED_END_OF_UTF16 | ERROR_EXPECTED_U | ERROR_INVALID_UTF16_TRAIL_SURROGATE
| ERROR_UNKNOWN_ESCAPE | ERROR_INVALID_UTF8 | ERROR_UNINITIALIZED

text \<open>
  What \<^verbatim>\<open>get_document\<close> takes from a parser that has failed: the fields
  \<^verbatim>\<open>make_error\<close> sets, \<^verbatim>\<open>error_line\<close>, \<^verbatim>\<open>error_column\<close>, \<^verbatim>\<open>error_code\<close> and
  \<^verbatim>\<open>error_arg\<close>, and the parser's \<^verbatim>\<open>input\<close>, the view of the buffer, which holds at
  that time the bytes the strings parsed so far have been decoded to in place.
\<close>

record failure =
  error_line :: nat
  error_column :: nat
  error_code :: error
  error_arg :: int
  doc_input :: "byte list"

datatype 'a outcome = Ok 'a | Failed failure | Undefined

text \<open>
  The \<^verbatim>\<open>while (c < p)\<close> loop of \<^verbatim>\<open>make_error\<close>: \<open>c\<close> walks the input buffer up to
  the failure pointer \<open>p\<close>.
\<close>

function error_walk :: "byte list \<Rightarrow> nat \<Rightarrow> nat \<Rightarrow> nat \<Rightarrow> nat \<Rightarrow> nat \<times> nat" where
  "error_walk inp p c line col =
     (if c < p then
        (if inp ! c = ch CHR 0x0D then
           (if c + 1 < p \<and> inp ! (c + 1) = ch CHR 0x0A
            then error_walk inp p (c + 1 + 1) (line + 1) 1
            else error_walk inp p (c + 1) (line + 1) 1)
         else if inp ! c = ch CHR 0x0A then error_walk inp p (c + 1) (line + 1) 1
         else error_walk inp p (c + 1) line (col + 1))
      else (line, col))"
  by pat_completeness auto
termination
  by (relation "measure (\<lambda>(inp, p, c, line, col). p - c)") auto

declare error_walk.simps [simp del]

text \<open>\<^verbatim>\<open>make_error(p, code, arg)\<close>; the null pointer \<^verbatim>\<open>p == 0\<close> is \<open>None\<close>.\<close>

definition make_error :: "byte list \<Rightarrow> nat option \<Rightarrow> error \<Rightarrow> int \<Rightarrow> failure" where
  "make_error inp p0 code arg =
     (let p = (case p0 of None \<Rightarrow> length inp | Some q \<Rightarrow> q);
          (line, col) = error_walk inp p 0 1 1
      in \<lparr>error_line = line, error_column = col, error_code = code, error_arg = arg,
          doc_input = inp\<rparr>)"

subsection \<open>The host's \<^verbatim>\<open>double\<close>: IEEE-754 binary64\<close>

text \<open>
  A \<^verbatim>\<open>double\<close> is its 64-bit pattern, which is what \<^verbatim>\<open>double_storage::store\<close>
  copies into the arena: sign (bit 63), biased exponent (bits 62 to 52), fraction
  (bits 51 to 0). The operations \<^verbatim>\<open>parse_number\<close> uses are the host's: conversion
  from \<^verbatim>\<open>int\<close>, \<open>*\<close>, \<open>+\<close>, unary minus and the comparison with \<open>0.0\<close>, rounding
  to nearest, ties to even.
\<close>

type_synonym double = "64 word"

definition d_sign :: "double \<Rightarrow> bool" where
  "d_sign d = bit d 63"

definition d_expo :: "double \<Rightarrow> int" where
  "d_expo d = uint (take_bit 11 (drop_bit 52 d))"

definition d_frac :: "double \<Rightarrow> int" where
  "d_frac d = uint (take_bit 52 d)"

definition d_make :: "bool \<Rightarrow> int \<Rightarrow> int \<Rightarrow> double" where
  "d_make s e f =
     (if s then push_bit 63 1 else 0) OR push_bit 52 (word_of_int e) OR word_of_int f"

definition d_infinity :: "bool \<Rightarrow> double" where
  "d_infinity s = d_make s 2047 0"

definition d_nan :: double where
  "d_nan = d_make False 2047 (2 ^ 51)"

definition d_is_nan :: "double \<Rightarrow> bool" where
  "d_is_nan d = (d_expo d = 2047 \<and> d_frac d \<noteq> 0)"

definition d_is_inf :: "double \<Rightarrow> bool" where
  "d_is_inf d = (d_expo d = 2047 \<and> d_frac d = 0)"

definition d_is_zero :: "double \<Rightarrow> bool" where
  "d_is_zero d = (d_expo d = 0 \<and> d_frac d = 0)"

text \<open>A finite double is \<open>d_mant d * 2 ^ d_scale d\<close>, with the sign.\<close>

definition d_mant :: "double \<Rightarrow> int" where
  "d_mant d = (if d_expo d = 0 then d_frac d else 2 ^ 52 + d_frac d)"

definition d_scale :: "double \<Rightarrow> int" where
  "d_scale d = (if d_expo d = 0 then - 1074 else d_expo d - 1075)"

function bit_length :: "int \<Rightarrow> int" where
  "bit_length n = (if n \<le> 0 then 0 else 1 + bit_length (n div 2))"
  by pat_completeness auto
termination
  by (relation "measure nat") auto

declare bit_length.simps [simp del]

text \<open>
  The double nearest to \<open>m * 2 ^ ex\<close> (ties to even), with sign \<open>s\<close>, for \<open>m \<ge> 0\<close>:
  \<open>e\<close> is the exponent of the last place kept, \<open>q\<close> the 53 (or fewer, when
  subnormal) bits kept and \<open>r\<close> the bits dropped.
\<close>

definition d_round :: "bool \<Rightarrow> int \<Rightarrow> int \<Rightarrow> double" where
  "d_round s m ex =
     (if m = 0 then d_make s 0 0
      else
        let e = max (ex + bit_length m - 53) (- 1074);
            k = nat (e - ex);
            q = (if e \<le> ex then m * 2 ^ nat (ex - e) else m div 2 ^ k);
            r = (if e \<le> ex then 0 else m mod 2 ^ k);
            half = (if e \<le> ex then 1 else 2 ^ (k - 1));
            q1 = (if r > half \<or> (r = half \<and> odd q) then q + 1 else q);
            q2 = (if q1 = 2 ^ 53 then 2 ^ 52 else q1);
            e2 = (if q1 = 2 ^ 53 then e + 1 else e)
        in if e2 > 971 then d_infinity s
           else if q2 < 2 ^ 52 then d_make s 0 q2
           else d_make s (e2 + 1075) (q2 - 2 ^ 52))"

definition double_of_int :: "int \<Rightarrow> double" where
  "double_of_int i = d_round (i < 0) \<bar>i\<bar> 0"

definition dmul :: "double \<Rightarrow> double \<Rightarrow> double" where
  "dmul a b =
     (if d_is_nan a \<or> d_is_nan b then d_nan
      else if d_is_inf a \<or> d_is_inf b then
        (if d_is_zero a \<or> d_is_zero b then d_nan else d_infinity (d_sign a \<noteq> d_sign b))
      else d_round (d_sign a \<noteq> d_sign b) (d_mant a * d_mant b) (d_scale a + d_scale b))"

definition dadd :: "double \<Rightarrow> double \<Rightarrow> double" where
  "dadd a b =
     (if d_is_nan a \<or> d_is_nan b then d_nan
      else if d_is_inf a then (if d_is_inf b \<and> d_sign a \<noteq> d_sign b then d_nan else a)
      else if d_is_inf b then b
      else
        let e = min (d_scale a) (d_scale b);
            ia = (if d_sign a then - 1 else 1) * d_mant a * 2 ^ nat (d_scale a - e);
            ib = (if d_sign b then - 1 else 1) * d_mant b * 2 ^ nat (d_scale b - e);
            s = ia + ib
        in if s = 0 then d_make (d_sign a \<and> d_sign b) 0 0
           else d_round (s < 0) \<bar>s\<bar> e)"

definition dneg :: "double \<Rightarrow> double" where
  "dneg d = d XOR push_bit 63 1"

text \<open>The value of the literal \<^verbatim>\<open>1e<k>\<close>: the double nearest to \<open>10 ^ k\<close>.\<close>

definition d_literal_1e :: "int \<Rightarrow> double" where
  "d_literal_1e k =
     (if 0 \<le> k then d_round False (10 ^ nat k) 0
      else
        let n = nat (- k);
            s = bit_length (10 ^ n) + 64;
            q = 2 ^ nat s div 10 ^ n
        in d_round False (2 * q + 1) (- s - 1))"

subsection \<open>\<^verbatim>\<open>pow10\<close>\<close>

text \<open>
  \<^verbatim>\<open>constants[]\<close> holds the 632 literals \<^verbatim>\<open>1e-323\<close>, \<^verbatim>\<open>1e-322\<close>, and so on up to
  \<^verbatim>\<open>1e308\<close>, one for every exponent and in this order.
\<close>

definition constants :: "double list" where
  "constants = map d_literal_1e [- 323 .. 308]"

definition pow10 :: "int \<Rightarrow> double" where
  "pow10 exponent =
     (if exponent > 308 then d_infinity False
      else if exponent < - 323 then 0
      else constants ! nat (exponent + 323))"

lemma constants_nth:
  "- 323 \<le> e \<Longrightarrow> e \<le> 308 \<Longrightarrow> constants ! nat (e + 323) = d_literal_1e e"
proof -
  assume a: "- 323 \<le> e" "e \<le> 308"
  then have "nat (e + 323) < length [- 323 .. 308 :: int]"
    by (simp only: length_upto)
  moreover from a have "[- 323 .. 308] ! nat (e + 323) = e"
    by (subst nth_upto) simp_all
  ultimately show ?thesis
    by (simp only: constants_def nth_map)
qed

text \<open>The same function without the list, for evaluation.\<close>

lemma pow10_code [code]:
  "pow10 exponent =
     (if exponent > 308 then d_infinity False
      else if exponent < - 323 then 0
      else d_literal_1e exponent)"
  by (simp add: pow10_def constants_nth)

subsection \<open>The parser's memory: input buffer and \<^verbatim>\<open>single_allocation\<close> arena\<close>

text \<open>
  \<open>input\<close> is the mutable input buffer (\<^verbatim>\<open>input.get_data()\<close> is index 0 and
  \<^verbatim>\<open>input_end\<close> is \<open>length input\<close>). \<open>mem\<close> is the arena the allocator was made
  with: \<^verbatim>\<open>structure\<close> and \<^verbatim>\<open>stack_bottom\<close> are index 0 and \<^verbatim>\<open>structure_end\<close> is
  \<open>length mem\<close>. \<open>stack_top\<close> is \<^verbatim>\<open>stack_head::stack_top\<close> and \<open>write_cursor\<close> is
  \<^verbatim>\<open>allocator::write_cursor\<close>, both as indices into \<open>mem\<close>.
\<close>

record pstate =
  input :: "byte list"
  mem :: "size_t list"
  stack_top :: nat
  write_cursor :: nat
  root_tag :: tag

text \<open>
  A write \<^verbatim>\<open>*a = v\<close> and a read \<^verbatim>\<open>*a\<close> of an arena word; \<open>None\<close> is an access outside
  the arena.
\<close>

definition store :: "nat \<Rightarrow> size_t \<Rightarrow> pstate \<Rightarrow> pstate option" where
  "store a v st =
     (if a < length (mem st) then Some (st\<lparr>mem := (mem st)[a := v]\<rparr>) else None)"

definition load :: "pstate \<Rightarrow> nat \<Rightarrow> size_t option" where
  "load st a = (if a < length (mem st) then Some (mem st ! a) else None)"

text \<open>\<^verbatim>\<open>stack_head::push\<close>: \<^verbatim>\<open>*stack_top++ = element; return true;\<close>\<close>

definition push :: "size_t \<Rightarrow> pstate \<Rightarrow> (bool \<times> pstate) option" where
  "push element st =
     (case store (stack_top st) element st of
        Some st1 \<Rightarrow> Some (True, st1\<lparr>stack_top := stack_top st1 + 1\<rparr>)
      | None \<Rightarrow> None)"

text \<open>\<^verbatim>\<open>stack_head::reserve\<close>: the old top, the success flag, the new state.\<close>

definition stack_reserve :: "nat \<Rightarrow> pstate \<Rightarrow> nat \<times> bool \<times> pstate" where
  "stack_reserve amount st = (stack_top st, True, st\<lparr>stack_top := stack_top st + amount\<rparr>)"

definition reset :: "nat \<Rightarrow> pstate \<Rightarrow> pstate" where
  "reset new_top st = st\<lparr>stack_top := 0 + new_top\<rparr>"

definition get_size :: "pstate \<Rightarrow> nat" where
  "get_size st = stack_top st - 0"

definition get_top :: "pstate \<Rightarrow> nat" where
  "get_top st = stack_top st"

definition get_pointer_from_offset :: "nat \<Rightarrow> nat" where
  "get_pointer_from_offset offset = 0 + offset"

definition get_write_offset :: "pstate \<Rightarrow> nat" where
  "get_write_offset st = length (mem st) - write_cursor st"

definition get_write_pointer_of :: "pstate \<Rightarrow> nat \<Rightarrow> nat" where
  "get_write_pointer_of st v = length (mem st) - v"

text \<open>
  \<^verbatim>\<open>allocator::reserve\<close>: \<^verbatim>\<open>write_cursor -= size\<close>, with no check. A cursor below
  \<^verbatim>\<open>structure\<close> is a pointer before the start of the buffer: \<open>None\<close>.
\<close>

definition reserve :: "nat \<Rightarrow> pstate \<Rightarrow> (nat \<times> bool \<times> pstate) option" where
  "reserve amount st =
     (if amount \<le> write_cursor st
      then Some (write_cursor st - amount, True, st\<lparr>write_cursor := write_cursor st - amount\<rparr>)
      else None)"

definition get_ast_root :: "pstate \<Rightarrow> nat" where
  "get_ast_root st = write_cursor st"

text \<open>
  \<^verbatim>\<open>at_eof\<close> is \<^verbatim>\<open>p == input_end\<close>. No pointer of the parser passes \<^verbatim>\<open>input_end\<close>, so
  the model reads the test as \<open>length inp \<le> p\<close>, which keeps the loops total.
\<close>

definition at_eof :: "byte list \<Rightarrow> nat \<Rightarrow> bool" where
  "at_eof inp p = (length inp \<le> p)"

definition has_remaining_characters :: "byte list \<Rightarrow> nat \<Rightarrow> nat \<Rightarrow> bool" where
  "has_remaining_characters inp p remaining = (p + remaining \<le> length inp)"

text \<open>\<^verbatim>\<open>skip_whitespace\<close>: \<open>None\<close> is the null pointer it returns at the end of input.\<close>

function skip_whitespace :: "byte list \<Rightarrow> nat \<Rightarrow> nat option" where
  "skip_whitespace inp p =
     (if at_eof inp p then None
      else if is_whitespace (inp ! p) then skip_whitespace inp (p + 1)
      else Some p)"
  by pat_completeness auto
termination
  by (relation "measure (\<lambda>(inp, p). length inp - p)") (auto simp: at_eof_def)

declare skip_whitespace.simps [simp del]

subsection \<open>Literals\<close>

definition parse_null :: "byte list \<Rightarrow> nat \<Rightarrow> failure + nat" where
  "parse_null inp p =
     (if \<not> has_remaining_characters inp p 4
      then Inl (make_error inp (Some p) ERROR_UNEXPECTED_END 0)
      else if inp ! (p + 1) \<noteq> ch CHR ''u'' \<or> inp ! (p + 2) \<noteq> ch CHR ''l''
              \<or> inp ! (p + 3) \<noteq> ch CHR ''l''
      then Inl (make_error inp (Some p) ERROR_EXPECTED_NULL 0)
      else Inr (p + 4))"

definition parse_false :: "byte list \<Rightarrow> nat \<Rightarrow> failure + nat" where
  "parse_false inp p =
     (if \<not> has_remaining_characters inp p 5
      then Inl (make_error inp (Some p) ERROR_UNEXPECTED_END 0)
      else if inp ! (p + 1) \<noteq> ch CHR ''a'' \<or> inp ! (p + 2) \<noteq> ch CHR ''l''
              \<or> inp ! (p + 3) \<noteq> ch CHR ''s'' \<or> inp ! (p + 4) \<noteq> ch CHR ''e''
      then Inl (make_error inp (Some p) ERROR_EXPECTED_FALSE 0)
      else Inr (p + 5))"

definition parse_true :: "byte list \<Rightarrow> nat \<Rightarrow> failure + nat" where
  "parse_true inp p =
     (if \<not> has_remaining_characters inp p 4
      then Inl (make_error inp (Some p) ERROR_UNEXPECTED_END 0)
      else if inp ! (p + 1) \<noteq> ch CHR ''r'' \<or> inp ! (p + 2) \<noteq> ch CHR ''u''
              \<or> inp ! (p + 3) \<noteq> ch CHR ''e''
      then Inl (make_error inp (Some p) ERROR_EXPECTED_TRUE 0)
      else Inr (p + 4))"

subsection \<open>Numbers\<close>

definition INT_MAX :: int where
  "INT_MAX = 2147483647"

definition is_digit :: "byte \<Rightarrow> bool" where
  "is_digit c = (ch CHR ''0'' \<le> c \<and> c \<le> ch CHR ''9'')"

text \<open>
  \<^verbatim>\<open>integer_storage::store\<close> copies the four bytes of the \<^verbatim>\<open>int\<close> over the low half
  of the word (a little-endian host) and leaves the other half as it was;
  \<^verbatim>\<open>double_storage::store\<close> copies all eight bytes.
\<close>

definition integer_storage_store :: "size_t \<Rightarrow> int \<Rightarrow> size_t" where
  "integer_storage_store old v = (old AND NOT 0xFFFFFFFF) OR ucast (word_of_int v :: 32 word)"

definition integer_storage_load :: "size_t \<Rightarrow> int" where
  "integer_storage_load w = sint (ucast w :: 32 word)"

definition double_storage_store :: "size_t \<Rightarrow> double \<Rightarrow> size_t" where
  "double_storage_store old v = v"

definition double_storage_load :: "size_t \<Rightarrow> double" where
  "double_storage_load w = w"

text \<open>
  The \<^verbatim>\<open>do ... while\<close> loop over the digits of the integer part. \<open>c\<close> is the digit
  at the old \<open>p\<close>; the result is \<open>(p, try_double, i, d)\<close>.
\<close>

function int_digits ::
  "byte list \<Rightarrow> nat \<Rightarrow> byte \<Rightarrow> bool \<Rightarrow> int \<Rightarrow> double \<Rightarrow> failure + nat \<times> bool \<times> int \<times> double"
where
  "int_digits inp p c try_double i d =
     (if at_eof inp (p + 1) then Inl (make_error inp (Some (p + 1)) ERROR_UNEXPECTED_END 0)
      else
        let digit = uint (c - ch CHR ''0'');
            promote = (\<not> try_double \<and> i > INT_MAX div 10 - 9);
            try_double1 = (try_double \<or> promote);
            d1 = (if promote then double_of_int i else d);
            d2 = (if try_double1 then dadd (dmul (double_of_int 10) d1) (double_of_int digit) else d1);
            i2 = (if try_double1 then i else 10 * i + digit);
            c1 = inp ! (p + 1)
        in if is_digit c1 then int_digits inp (p + 1) c1 try_double1 i2 d2
           else Inr (p + 1, try_double1, i2, d2))"
  by pat_completeness auto
termination
  by (relation "measure (\<lambda>(inp, p, c, t, i, d). length inp - p)") (auto simp: at_eof_def)

declare int_digits.simps [simp del]

text \<open>The loop over the digits of the fraction; the result is \<open>(p, d, exponent)\<close>.\<close>

function frac_digits ::
  "byte list \<Rightarrow> nat \<Rightarrow> byte \<Rightarrow> double \<Rightarrow> int \<Rightarrow> failure + nat \<times> double \<times> int"
where
  "frac_digits inp p c d exponent =
     (if at_eof inp (p + 1) then Inl (make_error inp (Some (p + 1)) ERROR_UNEXPECTED_END 0)
      else
        let d1 = dadd (dmul d (double_of_int 10)) (double_of_int (uint (c - ch CHR ''0'')));
            exponent1 = exponent - 1;
            c1 = inp ! (p + 1)
        in if is_digit c1 then frac_digits inp (p + 1) c1 d1 exponent1
           else Inr (p + 1, d1, exponent1))"
  by pat_completeness auto
termination
  by (relation "measure (\<lambda>(inp, p, c, d, e). length inp - p)") (auto simp: at_eof_def)

declare frac_digits.simps [simp del]

text \<open>The \<^verbatim>\<open>for (;;)\<close> loop over the digits of the exponent; the result is \<open>(p, exp)\<close>.\<close>

function exp_digits :: "byte list \<Rightarrow> nat \<Rightarrow> byte \<Rightarrow> int \<Rightarrow> failure + nat \<times> int" where
  "exp_digits inp p c exp =
     (let digit = uint (c - ch CHR ''0'');
          exp1 = (if exp > (INT_MAX - digit) div 10 then INT_MAX else 10 * exp + digit)
      in if at_eof inp (p + 1)
         then Inl (make_error inp (Some (p + 1)) ERROR_UNEXPECTED_END 0)
         else if \<not> is_digit (inp ! (p + 1)) then Inr (p + 1, exp1)
         else exp_digits inp (p + 1) (inp ! (p + 1)) exp1)"
  by pat_completeness auto
termination
  by (relation "measure (\<lambda>(inp, p, c, e). length inp - p)") (auto simp: at_eof_def)

declare exp_digits.simps [simp del]

text \<open>
  The three parts of \<^verbatim>\<open>parse_number\<close> after the sign, in the order of the source:
  integer part, fraction, exponent.
\<close>

definition number_integer_part ::
  "byte list \<Rightarrow> nat \<Rightarrow> failure + nat \<times> bool \<times> int \<times> double"
where
  "number_integer_part inp p =
     (if inp ! p = ch CHR ''0'' then
        (if at_eof inp (p + 1) then Inl (make_error inp (Some (p + 1)) ERROR_UNEXPECTED_END 0)
         else Inr (p + 1, False, 0, 0))
      else if \<not> is_digit (inp ! p) then Inl (make_error inp (Some p) ERROR_INVALID_NUMBER 0)
      else int_digits inp p (inp ! p) False 0 0)"

definition number_fraction ::
  "byte list \<Rightarrow> nat \<Rightarrow> bool \<Rightarrow> int \<Rightarrow> double \<Rightarrow> failure + nat \<times> bool \<times> double \<times> int"
where
  "number_fraction inp p try_double i d =
     (if inp ! p = ch CHR ''.'' then
        (let d1 = (if \<not> try_double then double_of_int i else d) in
         if at_eof inp (p + 1) then Inl (make_error inp (Some (p + 1)) ERROR_UNEXPECTED_END 0)
         else if \<not> is_digit (inp ! (p + 1))
         then Inl (make_error inp (Some (p + 1)) ERROR_INVALID_NUMBER 0)
         else
           (case frac_digits inp (p + 1) (inp ! (p + 1)) d1 0 of
              Inr (p1, d2, exponent) \<Rightarrow> Inr (p1, True, d2, exponent)
            | Inl f \<Rightarrow> Inl f))
      else Inr (p, try_double, d, 0))"

definition number_exponent ::
  "byte list \<Rightarrow> nat \<Rightarrow> bool \<Rightarrow> int \<Rightarrow> double \<Rightarrow> int \<Rightarrow> failure + nat \<times> bool \<times> double \<times> int"
where
  "number_exponent inp p try_double i d exponent =
     (if inp ! p = ch CHR ''e'' \<or> inp ! p = ch CHR ''E'' then
        (let d1 = (if \<not> try_double then double_of_int i else d) in
         if at_eof inp (p + 1) then Inl (make_error inp (Some (p + 1)) ERROR_UNEXPECTED_END 0)
         else
           let negativeExponent = (inp ! (p + 1) = ch CHR ''-'');
               p1 = (if inp ! (p + 1) = ch CHR ''-'' \<or> inp ! (p + 1) = ch CHR ''+''
                     then p + 1 + 1 else p + 1)
           in if p1 \<noteq> p + 1 \<and> at_eof inp p1
              then Inl (make_error inp (Some p1) ERROR_UNEXPECTED_END 0)
              else if \<not> is_digit (inp ! p1)
              then Inl (make_error inp (Some p1) ERROR_MISSING_EXPONENT 0)
              else
                (case exp_digits inp p1 (inp ! p1) 0 of
                   Inr (p2, exp) \<Rightarrow>
                     Inr (p2, True, d1, exponent + (if negativeExponent then - exp else exp))
                 | Inl f \<Rightarrow> Inl f))
      else Inr (p, try_double, d, exponent))"

text \<open>\<^verbatim>\<open>parse_number\<close>: the new \<open>p\<close>, the tag, and the state with the value stored.\<close>

definition parse_number :: "pstate \<Rightarrow> nat \<Rightarrow> (nat \<times> tag \<times> pstate) outcome" where
  "parse_number st p0 =
     (let inp = input st;
          negative = (inp ! p0 = ch CHR ''-'');
          p = (if negative then p0 + 1 else p0)
      in if negative \<and> at_eof inp p then Failed (make_error inp (Some p) ERROR_UNEXPECTED_END 0)
         else
           case number_integer_part inp p of
             Inl f \<Rightarrow> Failed f
           | Inr (p1, try_double1, i, d1) \<Rightarrow>
               (case number_fraction inp p1 try_double1 i d1 of
                  Inl f \<Rightarrow> Failed f
                | Inr (p2, try_double2, d2, exponent2) \<Rightarrow>
                    (case number_exponent inp p2 try_double2 i d2 exponent2 of
                       Inl f \<Rightarrow> Failed f
                     | Inr (p3, try_double, d3, exponent) \<Rightarrow>
                         (let d4 = (if exponent \<noteq> 0 \<and> \<not> d_is_zero d3
                                    then dmul d3 (pow10 exponent) else d3);
                              d5 = (if negative \<and> try_double then dneg d4 else d4);
                              i5 = (if negative \<and> \<not> try_double then - i else i)
                          in if try_double then
                               (case reserve 1 st of
                                  None \<Rightarrow> Undefined
                                | Some (out, success, st1) \<Rightarrow>
                                    if \<not> success
                                    then Failed (make_error inp (Some p3) ERROR_OUT_OF_MEMORY 0)
                                    else
                                      (case store out (double_storage_store (mem st1 ! out) d5) st1 of
                                         Some st2 \<Rightarrow> Ok (p3, tag_double, st2)
                                       | None \<Rightarrow> Undefined))
                             else
                               (case reserve 1 st of
                                  None \<Rightarrow> Undefined
                                | Some (out, success, st1) \<Rightarrow>
                                    if \<not> success
                                    then Failed (make_error inp (Some p3) ERROR_OUT_OF_MEMORY 0)
                                    else
                                      (case store out (integer_storage_store (mem st1 ! out) i5) st1 of
                                         Some st2 \<Rightarrow> Ok (p3, tag_integer, st2)
                                       | None \<Rightarrow> Undefined))))))"

subsection \<open>Strings\<close>

text \<open>
  The two loops of the fast path of \<^verbatim>\<open>parse_string\<close>: four bytes at a time while
  four remain, then byte by byte. Each returns whether it has found a byte that is
  not plain, and the pointer it stopped at.
\<close>

function scan_plain4 :: "byte list \<Rightarrow> nat \<Rightarrow> bool \<times> nat" where
  "scan_plain4 inp p =
     (if p + 4 \<le> length inp then
        (if \<not> is_plain_string_character (inp ! p) then (True, p)
         else if \<not> is_plain_string_character (inp ! (p + 1)) then (True, p + 1)
         else if \<not> is_plain_string_character (inp ! (p + 2)) then (True, p + 2)
         else if \<not> is_plain_string_character (inp ! (p + 3)) then (True, p + 3)
         else scan_plain4 inp (p + 4))
      else (False, p))"
  by pat_completeness auto
termination
  by (relation "measure (\<lambda>(inp, p). length inp - p)") auto

declare scan_plain4.simps [simp del]

function scan_plain :: "byte list \<Rightarrow> nat \<Rightarrow> bool \<times> nat" where
  "scan_plain inp p =
     (if p \<ge> length inp then (False, p)
      else if \<not> is_plain_string_character (inp ! p) then (True, p)
      else scan_plain inp (p + 1))"
  by pat_completeness auto
termination
  by (relation "measure (\<lambda>(inp, p). length inp - p)") auto

declare scan_plain.simps [simp del]

text \<open>\<^verbatim>\<open>read_hex\<close>: \<open>i\<close> counts the digits left; the result is \<open>(p, u)\<close>.\<close>

fun read_hex_loop :: "byte list \<Rightarrow> nat \<Rightarrow> nat \<Rightarrow> unsigned \<Rightarrow> failure + nat \<times> unsigned" where
  "read_hex_loop inp p i v =
     (if i = 0 then Inr (p, v)
      else
        let c = inp ! p in
        if ch CHR ''0'' \<le> c \<and> c \<le> ch CHR ''9''
        then read_hex_loop inp (p + 1) (i - 1) (push_bit 4 v + ucast (c - ch CHR ''0''))
        else if ch CHR ''a'' \<le> c \<and> c \<le> ch CHR ''f''
        then read_hex_loop inp (p + 1) (i - 1) (push_bit 4 v + ucast (c - ch CHR ''a'' + 10))
        else if ch CHR ''A'' \<le> c \<and> c \<le> ch CHR ''F''
        then read_hex_loop inp (p + 1) (i - 1) (push_bit 4 v + ucast (c - ch CHR ''A'' + 10))
        else Inl (make_error inp (Some (p + 1)) ERROR_INVALID_UNICODE_ESCAPE 0))"

declare read_hex_loop.simps [simp del]

definition read_hex :: "byte list \<Rightarrow> nat \<Rightarrow> failure + nat \<times> unsigned" where
  "read_hex inp p = read_hex_loop inp p 4 0"

text \<open>\<^verbatim>\<open>write_utf8(codepoint, end)\<close> writes into the input buffer and moves \<open>end\<close>.\<close>

definition write_utf8 :: "unsigned \<Rightarrow> byte list \<Rightarrow> nat \<Rightarrow> byte list \<times> nat" where
  "write_utf8 codepoint inp e =
     (if codepoint < 0x80 then (inp[e := ucast codepoint], e + 1)
      else if codepoint < 0x800 then
        (inp[e := ucast (0xC0 OR drop_bit 6 codepoint),
             e + 1 := ucast (0x80 OR (codepoint AND 0x3F))], e + 2)
      else if codepoint < 0x10000 then
        (inp[e := ucast (0xE0 OR drop_bit 12 codepoint),
             e + 1 := ucast (0x80 OR (drop_bit 6 codepoint AND 0x3F)),
             e + 2 := ucast (0x80 OR (codepoint AND 0x3F))], e + 3)
      else
        (inp[e := ucast (0xF0 OR drop_bit 18 codepoint),
             e + 1 := ucast (0x80 OR (drop_bit 12 codepoint AND 0x3F)),
             e + 2 := ucast (0x80 OR (drop_bit 6 codepoint AND 0x3F)),
             e + 3 := ucast (0x80 OR (codepoint AND 0x3F))], e + 4))"

text \<open>
  One turn of the \<^verbatim>\<open>for (;;)\<close> loop of \<^verbatim>\<open>parse_string_slow\<close>: it goes on with a new
  buffer, \<open>p\<close> and \<open>end\<close>, or has reached the closing quote, or fails.
\<close>

datatype slow_step = Continue "byte list" nat nat | Closing | Error failure

text \<open>The block of \<^verbatim>\<open>case 'u'\<close>; \<open>p\<close> points at the \<^verbatim>\<open>u\<close>.\<close>

definition parse_unicode_escape :: "byte list \<Rightarrow> nat \<Rightarrow> nat \<Rightarrow> slow_step" where
  "parse_unicode_escape inp p0 e =
     (let p = p0 + 1 in
      if \<not> has_remaining_characters inp p 4
      then Error (make_error inp (Some p) ERROR_UNEXPECTED_END 0)
      else
        case read_hex inp p of
          Inl f \<Rightarrow> Error f
        | Inr (p1, u) \<Rightarrow>
            if u \<ge> 0xD800 \<and> u \<le> 0xDBFF then
              (if \<not> has_remaining_characters inp p1 6
               then Error (make_error inp (Some p1) ERROR_UNEXPECTED_END_OF_UTF16 0)
               else if inp ! p1 \<noteq> ch CHR 0x5C \<or> inp ! (p1 + 1) \<noteq> ch CHR ''u''
               then Error (make_error inp (Some p1) ERROR_EXPECTED_U 0)
               else
                 case read_hex inp (p1 + 2) of
                   Inl f \<Rightarrow> Error f
                 | Inr (p2, v) \<Rightarrow>
                     if v < 0xDC00 \<or> v > 0xDFFF
                     then Error (make_error inp (Some p2) ERROR_INVALID_UTF16_TRAIL_SURROGATE 0)
                     else
                       let u1 = 0x10000 + (push_bit 10 (u - 0xD800) OR (v - 0xDC00));
                           (inp1, e1) = write_utf8 u1 inp e
                       in Continue inp1 p2 e1)
            else
              let (inp1, e1) = write_utf8 u inp e in Continue inp1 p1 e1)"

text \<open>The \<^verbatim>\<open>default:\<close> branch, which checks UTF-8 and copies the bytes down to \<open>end\<close>.\<close>

definition is_continuation :: "byte \<Rightarrow> bool" where
  "is_continuation c = (\<not> (c < 128 \<or> c \<ge> 192))"

definition copy_utf8 :: "byte list \<Rightarrow> nat \<Rightarrow> nat \<Rightarrow> slow_step" where
  "copy_utf8 inp p e =
     (let c0 = inp ! p in
      if c0 < 128 then Continue (inp[e := inp ! p]) (p + 1) (e + 1)
      else if c0 < 224 then
        (if \<not> has_remaining_characters inp p 2
         then Error (make_error inp (Some p) ERROR_UNEXPECTED_END 0)
         else if \<not> is_continuation (inp ! (p + 1))
         then Error (make_error inp (Some (p + 1)) ERROR_INVALID_UTF8 0)
         else Continue (inp[e := c0, e + 1 := inp ! (p + 1)]) (p + 2) (e + 2))
      else if c0 < 240 then
        (if \<not> has_remaining_characters inp p 3
         then Error (make_error inp (Some p) ERROR_UNEXPECTED_END 0)
         else if \<not> is_continuation (inp ! (p + 1))
         then Error (make_error inp (Some (p + 1)) ERROR_INVALID_UTF8 0)
         else if \<not> is_continuation (inp ! (p + 2))
         then Error (make_error inp (Some (p + 2)) ERROR_INVALID_UTF8 0)
         else Continue (inp[e := c0, e + 1 := inp ! (p + 1), e + 2 := inp ! (p + 2)]) (p + 3) (e + 3))
      else if c0 < 248 then
        (if \<not> has_remaining_characters inp p 4
         then Error (make_error inp (Some p) ERROR_UNEXPECTED_END 0)
         else if \<not> is_continuation (inp ! (p + 1))
         then Error (make_error inp (Some (p + 1)) ERROR_INVALID_UTF8 0)
         else if \<not> is_continuation (inp ! (p + 2))
         then Error (make_error inp (Some (p + 2)) ERROR_INVALID_UTF8 0)
         else if \<not> is_continuation (inp ! (p + 3))
         then Error (make_error inp (Some (p + 3)) ERROR_INVALID_UTF8 0)
         else Continue (inp[e := c0, e + 1 := inp ! (p + 1), e + 2 := inp ! (p + 2),
                            e + 3 := inp ! (p + 3)]) (p + 4) (e + 4))
      else Error (make_error inp (Some p) ERROR_INVALID_UTF8 0))"

definition slow_iteration :: "byte list \<Rightarrow> nat \<Rightarrow> nat \<Rightarrow> slow_step" where
  "slow_iteration inp p e =
     (if p \<ge> length inp then Error (make_error inp (Some p) ERROR_UNEXPECTED_END 0)
      else if inp ! p < 0x20
      then Error (make_error inp (Some p) ERROR_ILLEGAL_CODEPOINT (uint (inp ! p)))
      else if inp ! p = ch CHR 0x22 then Closing
      else if inp ! p = ch CHR 0x5C then
        (if p + 1 \<ge> length inp then Error (make_error inp (Some (p + 1)) ERROR_UNEXPECTED_END 0)
         else
           let c = inp ! (p + 1) in
           if c = ch CHR 0x22 then Continue (inp[e := ch CHR 0x22]) (p + 1 + 1) (e + 1)
           else if c = ch CHR 0x5C then Continue (inp[e := ch CHR 0x5C]) (p + 1 + 1) (e + 1)
           else if c = ch CHR ''/'' then Continue (inp[e := ch CHR ''/'']) (p + 1 + 1) (e + 1)
           else if c = ch CHR ''b'' then Continue (inp[e := ch CHR 0x08]) (p + 1 + 1) (e + 1)
           else if c = ch CHR ''f'' then Continue (inp[e := ch CHR 0x0C]) (p + 1 + 1) (e + 1)
           else if c = ch CHR ''n'' then Continue (inp[e := ch CHR 0x0A]) (p + 1 + 1) (e + 1)
           else if c = ch CHR ''r'' then Continue (inp[e := ch CHR 0x0D]) (p + 1 + 1) (e + 1)
           else if c = ch CHR ''t'' then Continue (inp[e := ch CHR 0x09]) (p + 1 + 1) (e + 1)
           else if c = ch CHR ''u'' then parse_unicode_escape inp (p + 1) e
           else Error (make_error inp (Some (p + 1)) ERROR_UNKNOWN_ESCAPE 0))
      else copy_utf8 inp p e)"

lemma read_hex_loop_advances: "read_hex_loop inp p i v = Inr (p', u) \<Longrightarrow> p' = p + i"
proof (induction inp p i v rule: read_hex_loop.induct)
  case (1 inp p i v)
  show ?case
  proof (cases "i = 0")
    case True
    with "1.prems" show ?thesis by (simp add: read_hex_loop.simps)
  next
    case False
    with "1.prems" "1.IH" show ?thesis
      by (subst (asm) read_hex_loop.simps) (auto simp: Let_def split: if_splits)
  qed
qed

lemma read_hex_advances: "read_hex inp p = Inr (p', u) \<Longrightarrow> p' = p + 4"
  unfolding read_hex_def by (drule read_hex_loop_advances) simp

lemma write_utf8_length: "write_utf8 u inp e = (inp', e') \<Longrightarrow> length inp' = length inp"
  by (auto simp: write_utf8_def split: if_splits)

lemma parse_unicode_escape_progress:
  "parse_unicode_escape inp p e = Continue inp' p' e' \<Longrightarrow> p < p' \<and> length inp' = length inp"
  by (auto simp: parse_unicode_escape_def Let_def split: if_splits sum.splits prod.splits
      dest!: read_hex_advances write_utf8_length)

lemma copy_utf8_progress:
  "copy_utf8 inp p e = Continue inp' p' e' \<Longrightarrow> p < p' \<and> length inp' = length inp"
  by (auto simp: copy_utf8_def Let_def split: if_splits)

lemma slow_iteration_progress:
  "slow_iteration inp p e = Continue inp' p' e' \<Longrightarrow>
     p < p' \<and> length inp' = length inp \<and> p < length inp"
  by (auto simp: slow_iteration_def Let_def split: if_splits
      dest!: parse_unicode_escape_progress copy_utf8_progress)

text \<open>
  The loop of \<^verbatim>\<open>parse_string_slow\<close>, up to the closing quote: the buffer as decoded
  so far, the pointer of the quote and \<open>end\<close>.
\<close>

function slow_loop :: "byte list \<Rightarrow> nat \<Rightarrow> nat \<Rightarrow> failure + byte list \<times> nat \<times> nat" where
  "slow_loop inp p e =
     (case slow_iteration inp p e of
        Continue inp1 p1 e1 \<Rightarrow> slow_loop inp1 p1 e1
      | Closing \<Rightarrow> Inr (inp, p, e)
      | Error f \<Rightarrow> Inl f)"
  by pat_completeness auto
termination
  by (relation "measure (\<lambda>(inp, p, e). length inp - p)")
     (auto dest!: slow_iteration_progress)

declare slow_loop.simps [simp del]

text \<open>
  \<^verbatim>\<open>parse_string_slow(p, tag, start)\<close>: at the quote, \<^verbatim>\<open>tag[0] = start\<close>,
  \<^verbatim>\<open>tag[1] = end - input.get_data()\<close>, \<^verbatim>\<open>*end = '\0'\<close>, and the result is \<open>p + 1\<close>.
\<close>

definition parse_string_slow :: "pstate \<Rightarrow> nat \<Rightarrow> nat \<Rightarrow> nat \<Rightarrow> (nat \<times> pstate) outcome" where
  "parse_string_slow st p tag start =
     (case slow_loop (input st) p p of
        Inl f \<Rightarrow> Failed f
      | Inr (inp1, p1, e1) \<Rightarrow>
          (case store tag (of_nat start) st of
             None \<Rightarrow> Undefined
           | Some st1 \<Rightarrow>
               (case store (tag + 1) (of_nat e1) st1 of
                  None \<Rightarrow> Undefined
                | Some st2 \<Rightarrow> Ok (p1 + 1, st2\<lparr>input := inp1[e1 := 0]\<rparr>))))"

text \<open>\<^verbatim>\<open>parse_string(p, tag)\<close>; \<open>p\<close> points at the opening quote.\<close>

definition parse_string :: "pstate \<Rightarrow> nat \<Rightarrow> nat \<Rightarrow> (nat \<times> pstate) outcome" where
  "parse_string st p0 tag =
     (let inp = input st;
          start = p0 + 1;
          (found4, p4) = scan_plain4 inp start;
          (found, p) = (if found4 then (True, p4) else scan_plain inp p4)
      in if \<not> found then Failed (make_error inp (Some p) ERROR_UNEXPECTED_END 0)
         else if inp ! p = ch CHR 0x22 then
           (case store tag (of_nat start) st of
              None \<Rightarrow> Undefined
            | Some st1 \<Rightarrow>
                (case store (tag + 1) (of_nat p) st1 of
                   None \<Rightarrow> Undefined
                 | Some st2 \<Rightarrow> Ok (p + 1, st2\<lparr>input := inp[p := 0]\<rparr>)))
         else if inp ! p < 0x20
         then Failed (make_error inp (Some p) ERROR_ILLEGAL_CODEPOINT (uint (inp ! p)))
         else parse_string_slow st p tag start)"

subsection \<open>Installing arrays and objects\<close>

text \<open>
  The \<^verbatim>\<open>while (array_end > array_base)\<close> loop of \<^verbatim>\<open>install_array\<close>. It reads the
  scratch frame downwards and writes the record downwards from \<open>out\<close>; the pointer
  differences are taken in \<^verbatim>\<open>size_t\<close>.
\<close>

function install_array_loop ::
  "nat \<Rightarrow> nat \<Rightarrow> nat \<Rightarrow> nat \<Rightarrow> nat \<Rightarrow> pstate \<Rightarrow> (nat \<times> pstate) option"
where
  "install_array_loop array_base array_end out new_base structure_end st =
     (if array_end > array_base then
        (case load st (array_end - 1) of
           None \<Rightarrow> None
         | Some element \<Rightarrow>
             let element_type = get_element_tag element;
                 element_value = get_element_value element;
                 offset = (of_nat structure_end - element_value) - of_nat new_base
             in if out = 0 then None
                else
                  (case store (out - 1) (make_element element_type offset) st of
                     None \<Rightarrow> None
                   | Some st1 \<Rightarrow>
                       install_array_loop array_base (array_end - 1) (out - 1) new_base
                         structure_end st1))
      else Some (out, st))"
  by pat_completeness auto
termination
  by (relation "measure (\<lambda>(array_base, array_end, out, new_base, structure_end, st). array_end)")
     auto

declare install_array_loop.simps [simp del]

text \<open>
  \<^verbatim>\<open>install_array(array_base, array_end)\<close>. A frame whose end lies below its base has
  no length; the parser never makes one.
\<close>

definition install_array :: "nat \<Rightarrow> nat \<Rightarrow> pstate \<Rightarrow> (bool \<times> pstate) option" where
  "install_array array_base array_end st =
     (if array_end < array_base then None
      else
        let len = array_end - array_base in
        case reserve (len + 1) st of
          None \<Rightarrow> None
        | Some (new_base, success, st1) \<Rightarrow>
            if \<not> success then Some (False, st1)
            else
              let out = new_base + len + 1;
                  structure_end = get_write_pointer_of st1 0
              in case install_array_loop array_base array_end out new_base structure_end st1 of
                   None \<Rightarrow> None
                 | Some (out1, st2) \<Rightarrow>
                     if out1 = 0 then None
                     else
                       (case store (out1 - 1) (of_nat len) st2 of
                          None \<Rightarrow> None
                        | Some st3 \<Rightarrow> Some (True, st3)))"

text \<open>
  An \<^verbatim>\<open>object_key_record\<close> is three words: \<^verbatim>\<open>key_start\<close>, \<^verbatim>\<open>key_end\<close> and \<^verbatim>\<open>value\<close>.
  \<^verbatim>\<open>reinterpret_cast<object_key_record*>\<close> reads the words of a frame three by three.
\<close>

type_synonym object_key_record = "size_t \<times> size_t \<times> size_t"

definition key_start :: "object_key_record \<Rightarrow> size_t" where
  "key_start r = fst r"

definition key_end :: "object_key_record \<Rightarrow> size_t" where
  "key_end r = fst (snd r)"

fun records_of :: "size_t list \<Rightarrow> object_key_record list" where
  "records_of (a # b # c # ws) = (a, b, c) # records_of ws"
| "records_of ws = []"

fun words_of :: "object_key_record list \<Rightarrow> size_t list" where
  "words_of [] = []"
| "words_of ((a, b, c) # rs) = a # b # c # words_of rs"

text \<open>
  \<^verbatim>\<open>memcmp\<close> on two ranges of the same length, and the \<open>len\<close> bytes of the buffer
  \<open>data\<close> from \<open>start\<close>.
\<close>

fun memcmp :: "byte list \<Rightarrow> byte list \<Rightarrow> int" where
  "memcmp (x # xs) (y # ys) = (if x < y then - 1 else if y < x then 1 else memcmp xs ys)"
| "memcmp xs ys = 0"

definition bytes_at :: "byte list \<Rightarrow> size_t \<Rightarrow> nat \<Rightarrow> byte list" where
  "bytes_at data start len = take len (drop (unat start) data)"

text \<open>\<^verbatim>\<open>object_key_record::match\<close> and the two \<^verbatim>\<open>object_key_comparator\<close> operators used.\<close>

definition match :: "byte list \<Rightarrow> object_key_record \<Rightarrow> byte list \<Rightarrow> bool" where
  "match object_data r str =
     (let len = unat (key_end r - key_start r)
      in len = length str \<and> 0 = memcmp str (bytes_at object_data (key_start r) len))"

definition comparator_record_string :: "byte list \<Rightarrow> object_key_record \<Rightarrow> byte list \<Rightarrow> bool" where
  "comparator_record_string data lhs rhs =
     (let lhs_length = unat (key_end lhs - key_start lhs);
          rhs_length = length rhs
      in if lhs_length < rhs_length then True
         else if lhs_length > rhs_length then False
         else memcmp (bytes_at data (key_start lhs) lhs_length) rhs < 0)"

definition comparator_record_record ::
  "byte list \<Rightarrow> object_key_record \<Rightarrow> object_key_record \<Rightarrow> bool"
where
  "comparator_record_record data lhs rhs =
     (let lhs_length = unat (key_end lhs - key_start lhs);
          rhs_length = unat (key_end rhs - key_start rhs)
      in if lhs_length < rhs_length then True
         else if lhs_length > rhs_length then False
         else memcmp (bytes_at data (key_start lhs) lhs_length)
                (bytes_at data (key_start rhs) lhs_length) < 0)"

text \<open>
  \<^verbatim>\<open>std::sort(first, last, comp)\<close> is the C++ library's. The model is an insertion
  sort that leaves elements neither of which is less than the other in the order they
  had in the range.
\<close>

fun sort_insert :: "('a \<Rightarrow> 'a \<Rightarrow> bool) \<Rightarrow> 'a \<Rightarrow> 'a list \<Rightarrow> 'a list" where
  "sort_insert cmp x [] = [x]"
| "sort_insert cmp x (y # ys) = (if cmp y x then y # sort_insert cmp x ys else x # y # ys)"

definition std_sort :: "('a \<Rightarrow> 'a \<Rightarrow> bool) \<Rightarrow> 'a list \<Rightarrow> 'a list" where
  "std_sort cmp xs = foldr (sort_insert cmp) xs []"

text \<open>The sort of \<^verbatim>\<open>install_object\<close>, on the words of the frame in the arena.\<close>

definition sort_frame :: "nat \<Rightarrow> nat \<Rightarrow> pstate \<Rightarrow> pstate option" where
  "sort_frame object_base object_end st =
     (if object_end \<le> length (mem st) \<and> object_base \<le> object_end then
        Some (st\<lparr>mem :=
          take object_base (mem st)
          @ words_of (std_sort (comparator_record_record (input st))
               (records_of (take (object_end - object_base) (drop object_base (mem st)))))
          @ drop object_end (mem st)\<rparr>)
      else None)"

function install_object_loop ::
  "nat \<Rightarrow> nat \<Rightarrow> nat \<Rightarrow> nat \<Rightarrow> nat \<Rightarrow> pstate \<Rightarrow> (nat \<times> pstate) option"
where
  "install_object_loop object_base object_end out new_base structure_end st =
     (if object_end > object_base then
        (if object_end < 3 \<or> out < 3 then None
         else
           case load st (object_end - 1) of
             None \<Rightarrow> None
           | Some element \<Rightarrow>
               let element_type = get_element_tag element;
                   element_value = get_element_value element;
                   offset = (of_nat structure_end - element_value) - of_nat new_base
               in case store (out - 1) (make_element element_type offset) st of
                    None \<Rightarrow> None
                  | Some st1 \<Rightarrow>
                      (case load st1 (object_end - 2) of
                         None \<Rightarrow> None
                       | Some w2 \<Rightarrow>
                           (case store (out - 2) w2 st1 of
                              None \<Rightarrow> None
                            | Some st2 \<Rightarrow>
                                (case load st2 (object_end - 3) of
                                   None \<Rightarrow> None
                                 | Some w3 \<Rightarrow>
                                     (case store (out - 3) w3 st2 of
                                        None \<Rightarrow> None
                                      | Some st3 \<Rightarrow>
                                          install_object_loop object_base (object_end - 3)
                                            (out - 3) new_base structure_end st3)))))
      else Some (out, st))"
  by pat_completeness auto
termination
  by (relation "measure (\<lambda>(object_base, object_end, out, new_base, structure_end, st). object_end)")
     auto

declare install_object_loop.simps [simp del]

text \<open>
  \<^verbatim>\<open>install_object(object_base, object_end)\<close>. The source asserts that the frame is a
  whole number of records; a frame that is not is \<open>None\<close>.
\<close>

definition install_object :: "nat \<Rightarrow> nat \<Rightarrow> pstate \<Rightarrow> (bool \<times> pstate) option" where
  "install_object object_base object_end st =
     (if object_end < object_base \<or> (object_end - object_base) mod 3 \<noteq> 0 then None
      else
        let length_times_3 = object_end - object_base;
            len = length_times_3 div 3
        in case (if should_binary_search len then sort_frame object_base object_end st
                 else Some st) of
             None \<Rightarrow> None
           | Some st0 \<Rightarrow>
               (case reserve (length_times_3 + 1) st0 of
                  None \<Rightarrow> None
                | Some (new_base, success, st1) \<Rightarrow>
                    if \<not> success then Some (False, st1)
                    else
                      let out = new_base + length_times_3 + 1;
                          structure_end = get_write_pointer_of st1 0
                      in case install_object_loop object_base object_end out new_base
                                structure_end st1 of
                           None \<Rightarrow> None
                         | Some (out1, st2) \<Rightarrow>
                             if out1 = 0 then None
                             else
                               (case store (out1 - 1) (of_nat len) st2 of
                                  None \<Rightarrow> None
                                | Some st3 \<Rightarrow> Some (True, st3))))"

subsection \<open>The state machine of \<^verbatim>\<open>parse\<close>\<close>

text \<open>
  The labels of \<^verbatim>\<open>parse()\<close> that are entered with a \<^verbatim>\<open>goto\<close> from another turn of
  the machine. A configuration is a label with the locals \<open>p\<close>, \<open>current_base\<close> and
  \<open>current_structure_tag\<close> and the parser's memory. \<^verbatim>\<open>pop_array\<close>, \<^verbatim>\<open>pop_object\<close> and
  \<^verbatim>\<open>pop\<close> run inside the turn that jumps to them, and so does the \<^verbatim>\<open>push\<close> of the
  value after the \<^verbatim>\<open>switch\<close> of \<^verbatim>\<open>next_element\<close>.
\<close>

datatype label =
  array_close_or_element | object_close_or_element | structure_close_or_comma
| object_key | next_element

datatype transition = Goto label nat nat tag pstate | Return "pstate outcome"

definition fail :: "pstate \<Rightarrow> nat option \<Rightarrow> error \<Rightarrow> transition" where
  "fail st p code = Return (Failed (make_error (input st) p code 0))"

text \<open>
  The end of \<^verbatim>\<open>next_element\<close>: push \<^verbatim>\<open>make_element(value_tag_result, write_offset)\<close>
  and go to \<^verbatim>\<open>structure_close_or_comma\<close>.
\<close>

definition push_value :: "nat \<Rightarrow> nat \<Rightarrow> tag \<Rightarrow> tag \<Rightarrow> pstate \<Rightarrow> transition" where
  "push_value p current_base current_structure_tag value_tag_result st =
     (case push (make_element value_tag_result (of_nat (get_write_offset st))) st of
        None \<Rightarrow> Return Undefined
      | Some (s, st1) \<Rightarrow>
          if \<not> s then fail st1 (Some p) ERROR_OUT_OF_MEMORY
          else Goto structure_close_or_comma p current_base current_structure_tag st1)"

definition pop :: "nat \<Rightarrow> nat \<Rightarrow> tag \<Rightarrow> size_t \<Rightarrow> pstate \<Rightarrow> transition" where
  "pop p current_base current_structure_tag pop_element st =
     (let parent = get_element_value pop_element in
      if parent = ROOT_MARKER then
        (let st1 = st\<lparr>root_tag := current_structure_tag\<rparr> in
         case skip_whitespace (input st1) p of
           Some q \<Rightarrow> fail st1 (Some q) ERROR_EXPECTED_END_OF_INPUT
         | None \<Rightarrow> Return (Ok st1))
      else
        push_value p (unat parent) (get_element_tag pop_element) current_structure_tag
          (reset current_base st))"

definition pop_object :: "nat \<Rightarrow> nat \<Rightarrow> tag \<Rightarrow> pstate \<Rightarrow> transition" where
  "pop_object p current_base current_structure_tag st =
     (let base_ptr = get_pointer_from_offset current_base in
      case load st base_ptr of
        None \<Rightarrow> Return Undefined
      | Some pop_element \<Rightarrow>
          (case install_object (base_ptr + 1) (get_top st) st of
             None \<Rightarrow> Return Undefined
           | Some (ok, st1) \<Rightarrow>
               if \<not> ok then fail st1 (Some (p + 1)) ERROR_OUT_OF_MEMORY
               else pop (p + 1) current_base current_structure_tag pop_element st1))"

definition pop_array :: "nat \<Rightarrow> nat \<Rightarrow> tag \<Rightarrow> pstate \<Rightarrow> transition" where
  "pop_array p current_base current_structure_tag st =
     (let base_ptr = get_pointer_from_offset current_base in
      case load st base_ptr of
        None \<Rightarrow> Return Undefined
      | Some pop_element \<Rightarrow>
          (case install_array (base_ptr + 1) (get_top st) st of
             None \<Rightarrow> Return Undefined
           | Some (ok, st1) \<Rightarrow>
               if \<not> ok then fail st1 (Some (p + 1)) ERROR_OUT_OF_MEMORY
               else pop (p + 1) current_base current_structure_tag pop_element st1))"

definition array_close_or_element_step :: "nat \<Rightarrow> nat \<Rightarrow> tag \<Rightarrow> pstate \<Rightarrow> transition" where
  "array_close_or_element_step p current_base current_structure_tag st =
     (case skip_whitespace (input st) (p + 1) of
        None \<Rightarrow> fail st None ERROR_UNEXPECTED_END
      | Some q \<Rightarrow>
          if input st ! q = ch CHR '']'' then pop_array q current_base current_structure_tag st
          else Goto next_element q current_base current_structure_tag st)"

definition object_close_or_element_step :: "nat \<Rightarrow> nat \<Rightarrow> tag \<Rightarrow> pstate \<Rightarrow> transition" where
  "object_close_or_element_step p current_base current_structure_tag st =
     (case skip_whitespace (input st) (p + 1) of
        None \<Rightarrow> fail st None ERROR_UNEXPECTED_END
      | Some q \<Rightarrow>
          if input st ! q = ch CHR ''}'' then pop_object q current_base current_structure_tag st
          else Goto object_key q current_base current_structure_tag st)"

definition structure_close_or_comma_step :: "nat \<Rightarrow> nat \<Rightarrow> tag \<Rightarrow> pstate \<Rightarrow> transition" where
  "structure_close_or_comma_step p current_base current_structure_tag st =
     (case skip_whitespace (input st) p of
        None \<Rightarrow> fail st None ERROR_UNEXPECTED_END
      | Some q \<Rightarrow>
          if current_structure_tag = tag_array then
            (if input st ! q = ch CHR '']'' then pop_array q current_base current_structure_tag st
             else if input st ! q \<noteq> ch CHR '','' then fail st (Some q) ERROR_EXPECTED_COMMA
             else Goto next_element (q + 1) current_base current_structure_tag st)
          else
            (if input st ! q = ch CHR ''}'' then pop_object q current_base current_structure_tag st
             else if input st ! q \<noteq> ch CHR '','' then fail st (Some q) ERROR_EXPECTED_COMMA
             else Goto object_key (q + 1) current_base current_structure_tag st))"

definition object_key_step :: "nat \<Rightarrow> nat \<Rightarrow> tag \<Rightarrow> pstate \<Rightarrow> transition" where
  "object_key_step p current_base current_structure_tag st =
     (case skip_whitespace (input st) p of
        None \<Rightarrow> fail st None ERROR_UNEXPECTED_END
      | Some q \<Rightarrow>
          if input st ! q \<noteq> ch CHR 0x22 then fail st (Some q) ERROR_MISSING_OBJECT_KEY
          else
            let (out, success, st1) = stack_reserve 2 st in
            if \<not> success then fail st1 (Some q) ERROR_OUT_OF_MEMORY
            else
              case parse_string st1 q out of
                Failed f \<Rightarrow> Return (Failed f)
              | Undefined \<Rightarrow> Return Undefined
              | Ok (p1, st2) \<Rightarrow>
                  (case skip_whitespace (input st2) p1 of
                     None \<Rightarrow> fail st2 None ERROR_EXPECTED_COLON
                   | Some q1 \<Rightarrow>
                       if input st2 ! q1 \<noteq> ch CHR '':'' then fail st2 (Some q1) ERROR_EXPECTED_COLON
                       else Goto next_element (q1 + 1) current_base current_structure_tag st2))"

definition next_element_step :: "nat \<Rightarrow> nat \<Rightarrow> tag \<Rightarrow> pstate \<Rightarrow> transition" where
  "next_element_step p current_base current_structure_tag st =
     (case skip_whitespace (input st) p of
        None \<Rightarrow> fail st None ERROR_UNEXPECTED_END
      | Some q \<Rightarrow>
          let c = input st ! q in
          if c = 0 then fail st (Some q) ERROR_UNEXPECTED_END
          else if c = ch CHR ''n'' then
            (case parse_null (input st) q of
               Inl f \<Rightarrow> Return (Failed f)
             | Inr p1 \<Rightarrow> push_value p1 current_base current_structure_tag tag_null st)
          else if c = ch CHR ''f'' then
            (case parse_false (input st) q of
               Inl f \<Rightarrow> Return (Failed f)
             | Inr p1 \<Rightarrow> push_value p1 current_base current_structure_tag tag_false st)
          else if c = ch CHR ''t'' then
            (case parse_true (input st) q of
               Inl f \<Rightarrow> Return (Failed f)
             | Inr p1 \<Rightarrow> push_value p1 current_base current_structure_tag tag_true st)
          else if is_digit c \<or> c = ch CHR ''-'' then
            (case parse_number st q of
               Failed f \<Rightarrow> Return (Failed f)
             | Undefined \<Rightarrow> Return Undefined
             | Ok (p1, value_tag_result, st1) \<Rightarrow>
                 push_value p1 current_base current_structure_tag value_tag_result st1)
          else if c = ch CHR 0x22 then
            (case reserve 2 st of
               None \<Rightarrow> Return Undefined
             | Some (string_tag, success, st1) \<Rightarrow>
                 if \<not> success then fail st1 (Some q) ERROR_OUT_OF_MEMORY
                 else
                   (case parse_string st1 q string_tag of
                      Failed f \<Rightarrow> Return (Failed f)
                    | Undefined \<Rightarrow> Return Undefined
                    | Ok (p1, st2) \<Rightarrow>
                        push_value p1 current_base current_structure_tag tag_string st2))
          else if c = ch CHR ''['' then
            (let previous_base = current_base;
                 current_base1 = get_size st
             in case push (make_element current_structure_tag (of_nat previous_base)) st of
                  None \<Rightarrow> Return Undefined
                | Some (s, st1) \<Rightarrow>
                    if \<not> s then fail st1 (Some q) ERROR_OUT_OF_MEMORY
                    else Goto array_close_or_element q current_base1 tag_array st1)
          else if c = ch CHR ''{'' then
            (let previous_base = current_base;
                 current_base1 = get_size st
             in case push (make_element current_structure_tag (of_nat previous_base)) st of
                  None \<Rightarrow> Return Undefined
                | Some (s, st1) \<Rightarrow>
                    if \<not> s then fail st1 (Some q) ERROR_OUT_OF_MEMORY
                    else Goto object_close_or_element q current_base1 tag_object st1)
          else if c = ch CHR '','' then fail st (Some q) ERROR_UNEXPECTED_COMMA
          else fail st (Some q) ERROR_EXPECTED_VALUE)"

fun step :: "label \<Rightarrow> nat \<Rightarrow> nat \<Rightarrow> tag \<Rightarrow> pstate \<Rightarrow> transition" where
  "step array_close_or_element = array_close_or_element_step"
| "step object_close_or_element = object_close_or_element_step"
| "step structure_close_or_comma = structure_close_or_comma_step"
| "step object_key = object_key_step"
| "step next_element = next_element_step"

subsection \<open>Every turn of the machine consumes input\<close>

lemma skip_whitespace_Some: "skip_whitespace inp p = Some q \<Longrightarrow> p \<le> q \<and> q < length inp"
proof (induction inp p rule: skip_whitespace.induct)
  case (1 inp p)
  then show ?case
    by (subst (asm) (2) skip_whitespace.simps) (auto simp: at_eof_def split: if_splits)
qed

lemma int_digits_advances:
  "int_digits inp p c t i d = Inr (p', t', i', d') \<Longrightarrow> p < p' \<and> p' < length inp"
proof (induction "length inp - p" arbitrary: p c t i d rule: less_induct)
  case less
  from less.prems show ?case
    by (subst (asm) int_digits.simps)
       (fastforce simp: at_eof_def Let_def split: if_splits dest!: less.hyps [rotated])
qed

lemma frac_digits_advances:
  "frac_digits inp p c d e = Inr (p', d', e') \<Longrightarrow> p < p' \<and> p' < length inp"
proof (induction "length inp - p" arbitrary: p c d e rule: less_induct)
  case less
  from less.prems show ?case
    by (subst (asm) frac_digits.simps)
       (fastforce simp: at_eof_def Let_def split: if_splits dest!: less.hyps [rotated])
qed

lemma exp_digits_advances:
  "exp_digits inp p c e = Inr (p', e') \<Longrightarrow> p < p' \<and> p' < length inp"
proof (induction "length inp - p" arbitrary: p c e rule: less_induct)
  case less
  from less.prems show ?case
    by (subst (asm) exp_digits.simps)
       (fastforce simp: at_eof_def Let_def split: if_splits dest!: less.hyps [rotated])
qed

lemma number_integer_part_advances:
  "number_integer_part inp p = Inr (p', t, i, d) \<Longrightarrow> p < p' \<and> p' < length inp"
  by (auto simp: number_integer_part_def at_eof_def split: if_splits dest!: int_digits_advances)

lemma number_fraction_advances:
  "number_fraction inp p t i d = Inr (p', t', d', e') \<Longrightarrow> p < length inp \<Longrightarrow>
     p \<le> p' \<and> p' < length inp"
  by (auto simp: number_fraction_def at_eof_def Let_def split: if_splits sum.splits
      dest!: frac_digits_advances)

lemma number_exponent_advances:
  "number_exponent inp p t i d e = Inr (p', t', d', e') \<Longrightarrow> p < length inp \<Longrightarrow>
     p \<le> p' \<and> p' < length inp"
  by (auto simp: number_exponent_def at_eof_def Let_def split: if_splits sum.splits
      dest!: exp_digits_advances)

lemma store_input: "store a v st = Some st' \<Longrightarrow> input st' = input st"
  by (auto simp: store_def split: if_splits)

lemma reserve_input: "reserve n st = Some (a, ok, st') \<Longrightarrow> input st' = input st"
  by (auto simp: reserve_def split: if_splits)

lemma push_input: "push e st = Some (ok, st') \<Longrightarrow> input st' = input st"
  by (auto simp: push_def split: option.splits dest!: store_input)

lemma parse_number_advances:
  "parse_number st p = Ok (p', t, st') \<Longrightarrow>
     p < p' \<and> p' < length (input st) \<and> input st' = input st"
  by (auto simp: parse_number_def Let_def at_eof_def
      split: if_splits sum.splits prod.splits option.splits
      dest!: number_integer_part_advances number_fraction_advances number_exponent_advances
        store_input reserve_input)

lemma scan_plain4_advances: "scan_plain4 inp p = (True, q) \<Longrightarrow> p \<le> q \<and> q < length inp"
proof (induction "length inp - p" arbitrary: p rule: less_induct)
  case less
  from less.prems show ?case
    by (subst (asm) scan_plain4.simps)
       (fastforce split: if_splits dest!: less.hyps [rotated])
qed

lemma scan_plain4_stops: "scan_plain4 inp p = (False, q) \<Longrightarrow> p \<le> q"
proof (induction "length inp - p" arbitrary: p rule: less_induct)
  case less
  from less.prems show ?case
    by (subst (asm) scan_plain4.simps)
       (fastforce split: if_splits dest!: less.hyps [rotated])
qed

lemma scan_plain_advances: "scan_plain inp p = (True, q) \<Longrightarrow> p \<le> q \<and> q < length inp"
proof (induction "length inp - p" arbitrary: p rule: less_induct)
  case less
  from less.prems show ?case
    by (subst (asm) scan_plain.simps)
       (fastforce split: if_splits dest!: less.hyps [rotated])
qed

lemma parse_unicode_escape_not_Closing: "parse_unicode_escape inp p e \<noteq> Closing"
  by (auto simp: parse_unicode_escape_def Let_def split: if_splits sum.splits prod.splits)

lemma copy_utf8_not_Closing: "copy_utf8 inp p e \<noteq> Closing"
  by (auto simp: copy_utf8_def Let_def split: if_splits)

lemma slow_iteration_Closing:
  "slow_iteration inp p e = Closing \<Longrightarrow> p < length inp \<and> inp ! p = ch CHR 0x22"
  by (auto simp: slow_iteration_def Let_def parse_unicode_escape_not_Closing copy_utf8_not_Closing
      split: if_splits)

lemma slow_loop_advances:
  "slow_loop inp p e = Inr (inp', p', e') \<Longrightarrow>
     p \<le> p' \<and> p' < length inp \<and> length inp' = length inp"
proof (induction inp p e rule: slow_loop.induct)
  case (1 inp p e)
  show ?case
  proof (cases "slow_iteration inp p e")
    case (Continue inp1 p1 e1)
    with "1.prems" have "slow_loop inp1 p1 e1 = Inr (inp', p', e')"
      by (subst (asm) slow_loop.simps) simp
    from "1.IH" [OF Continue this] slow_iteration_progress [OF Continue]
    show ?thesis by simp
  next
    case Closing
    with "1.prems" slow_iteration_Closing [OF Closing] show ?thesis
      by (subst (asm) slow_loop.simps) simp
  next
    case (Error f)
    with "1.prems" show ?thesis
      by (subst (asm) slow_loop.simps) simp
  qed
qed

lemma parse_string_slow_advances:
  "parse_string_slow st p tg start = Ok (p', st') \<Longrightarrow>
     p < p' \<and> p' \<le> length (input st) \<and> length (input st') = length (input st)"
  by (auto simp: parse_string_slow_def split: sum.splits option.splits prod.splits
      dest!: slow_loop_advances store_input)

lemma parse_string_advances:
  "parse_string st p tg = Ok (p', st') \<Longrightarrow>
     p + 1 < p' \<and> p' \<le> length (input st) \<and> length (input st') = length (input st)"
  by (auto simp: parse_string_def Let_def split: if_splits prod.splits option.splits
      dest!: scan_plain4_advances scan_plain4_stops scan_plain_advances
        parse_string_slow_advances store_input)

lemma install_array_loop_input:
  "install_array_loop b e out nb se st = Some (out', st') \<Longrightarrow> input st' = input st"
proof (induction e arbitrary: out st rule: less_induct)
  case (less e)
  from less.prems show ?case
    by (subst (asm) install_array_loop.simps)
       (fastforce simp: Let_def split: if_splits option.splits
          dest!: less.IH [rotated] store_input)
qed

lemma install_array_input: "install_array b e st = Some (ok, st') \<Longrightarrow> input st' = input st"
  by (auto simp: install_array_def Let_def split: if_splits option.splits prod.splits
      dest!: reserve_input install_array_loop_input store_input)

lemma install_object_loop_input:
  "install_object_loop b e out nb se st = Some (out', st') \<Longrightarrow> input st' = input st"
proof (induction e arbitrary: out st rule: less_induct)
  case (less e)
  from less.prems show ?case
    by (subst (asm) install_object_loop.simps)
       (fastforce simp: Let_def split: if_splits option.splits
          dest!: less.IH [rotated] store_input)
qed

lemma sort_frame_input: "sort_frame b e st = Some st' \<Longrightarrow> input st' = input st"
  by (auto simp: sort_frame_def split: if_splits)

lemma install_object_input: "install_object b e st = Some (ok, st') \<Longrightarrow> input st' = input st"
  by (auto simp: install_object_def Let_def split: if_splits option.splits prod.splits
      dest!: reserve_input install_object_loop_input store_input sort_frame_input)

lemma push_value_Goto:
  "push_value p cb cst t st = Goto l' p' cb' cst' st' \<Longrightarrow> p' = p \<and> input st' = input st"
  by (auto simp: push_value_def fail_def split: option.splits if_splits dest!: push_input)

lemma pop_Goto:
  "pop p cb cst el st = Goto l' p' cb' cst' st' \<Longrightarrow> p' = p \<and> input st' = input st"
  by (auto simp: pop_def fail_def Let_def reset_def split: option.splits if_splits
      dest!: push_value_Goto)

lemma pop_array_Goto:
  "pop_array p cb cst st = Goto l' p' cb' cst' st' \<Longrightarrow> p' = p + 1 \<and> input st' = input st"
  by (auto simp: pop_array_def fail_def Let_def split: option.splits if_splits
      dest!: pop_Goto install_array_input)

lemma pop_object_Goto:
  "pop_object p cb cst st = Goto l' p' cb' cst' st' \<Longrightarrow> p' = p + 1 \<and> input st' = input st"
  by (auto simp: pop_object_def fail_def Let_def split: option.splits if_splits
      dest!: pop_Goto install_object_input)

lemma parse_literal_advances:
  "parse_null inp p = Inr p' \<Longrightarrow> p < p'"
  "parse_false inp p = Inr p' \<Longrightarrow> p < p'"
  "parse_true inp p = Inr p' \<Longrightarrow> p < p'"
  by (auto simp: parse_null_def parse_false_def parse_true_def split: if_splits)

definition step_measure :: "label \<times> nat \<times> nat \<times> tag \<times> pstate \<Rightarrow> nat" where
  "step_measure c =
     (case c of (l, p, cb, cst, st) \<Rightarrow>
        2 * (length (input st) - p) + (if l = next_element then 1 else 0))"

lemma array_close_or_element_step_progress:
  "array_close_or_element_step p cb cst st = Goto l' p' cb' cst' st' \<Longrightarrow>
     p < p' \<and> p < length (input st) \<and> length (input st') = length (input st)"
  by (auto simp: array_close_or_element_step_def fail_def split: option.splits if_splits
      dest!: skip_whitespace_Some pop_array_Goto)

lemma object_close_or_element_step_progress:
  "object_close_or_element_step p cb cst st = Goto l' p' cb' cst' st' \<Longrightarrow>
     p < p' \<and> p < length (input st) \<and> length (input st') = length (input st)"
  by (auto simp: object_close_or_element_step_def fail_def split: option.splits if_splits
      dest!: skip_whitespace_Some pop_object_Goto)

lemma structure_close_or_comma_step_progress:
  "structure_close_or_comma_step p cb cst st = Goto l' p' cb' cst' st' \<Longrightarrow>
     p < p' \<and> p < length (input st) \<and> length (input st') = length (input st)"
  by (auto simp: structure_close_or_comma_step_def fail_def split: option.splits if_splits
      dest!: skip_whitespace_Some pop_object_Goto pop_array_Goto)

lemma object_key_step_progress:
  "object_key_step p cb cst st = Goto l' p' cb' cst' st' \<Longrightarrow>
     p < p' \<and> p < length (input st) \<and> length (input st') = length (input st)"
  by (auto simp: object_key_step_def fail_def stack_reserve_def
      split: option.splits if_splits outcome.splits prod.splits
      dest!: skip_whitespace_Some parse_string_advances)

lemma next_element_step_progress:
  "next_element_step p cb cst st = Goto l' p' cb' cst' st' \<Longrightarrow>
     p < length (input st) \<and> length (input st') = length (input st) \<and>
     (p < p' \<or> (p \<le> p' \<and> l' \<noteq> next_element))"
  by (auto simp: next_element_step_def fail_def Let_def
      split: option.splits if_splits outcome.splits prod.splits sum.splits
      dest!: skip_whitespace_Some parse_string_advances parse_number_advances
        parse_literal_advances push_value_Goto push_input reserve_input)

lemma step_progress:
  "step l p cb cst st = Goto l' p' cb' cst' st' \<Longrightarrow>
     step_measure (l', p', cb', cst', st') < step_measure (l, p, cb, cst, st)"
  by (cases l)
     (auto simp: step_measure_def
       dest!: array_close_or_element_step_progress object_close_or_element_step_progress
         structure_close_or_comma_step_progress object_key_step_progress
         next_element_step_progress)

text \<open>
  The machine itself: it runs from a configuration until a turn returns. It is total,
  because every turn that jumps has consumed input or has left \<^verbatim>\<open>next_element\<close>.
\<close>

function run :: "label \<Rightarrow> nat \<Rightarrow> nat \<Rightarrow> tag \<Rightarrow> pstate \<Rightarrow> pstate outcome" where
  "run l p current_base current_structure_tag st =
     (case step l p current_base current_structure_tag st of
        Goto l1 p1 current_base1 current_structure_tag1 st1 \<Rightarrow>
          run l1 p1 current_base1 current_structure_tag1 st1
      | Return r \<Rightarrow> r)"
  by pat_completeness auto
termination
  by (relation "measure step_measure") (auto dest: step_progress)

declare run.simps [simp del]

text \<open>
  \<^verbatim>\<open>parser::parse()\<close>. \<^verbatim>\<open>get_stack_head\<close> always succeeds and gives the empty stack at
  the start of the arena.
\<close>

definition parser_parse :: "pstate \<Rightarrow> pstate outcome" where
  "parser_parse st0 =
     (let st = st0\<lparr>stack_top := 0\<rparr> in
      case skip_whitespace (input st) 0 of
        None \<Rightarrow> Failed (make_error (input st) None ERROR_MISSING_ROOT_ELEMENT 0)
      | Some p \<Rightarrow>
          let current_base = get_size st in
          if input st ! p = ch CHR ''['' then
            (case push (make_element tag_array ROOT_MARKER) st of
               None \<Rightarrow> Undefined
             | Some (s, st1) \<Rightarrow>
                 if \<not> s then Failed (make_error (input st1) (Some p) ERROR_OUT_OF_MEMORY 0)
                 else run array_close_or_element p current_base tag_array st1)
          else if input st ! p = ch CHR ''{'' then
            (case push (make_element tag_object ROOT_MARKER) st of
               None \<Rightarrow> Undefined
             | Some (s, st1) \<Rightarrow>
                 if \<not> s then Failed (make_error (input st1) (Some p) ERROR_OUT_OF_MEMORY 0)
                 else run object_close_or_element p current_base tag_object st1)
          else Failed (make_error (input st) (Some p) ERROR_BAD_ROOT 0))"

subsection \<open>The document\<close>

text \<open>
  A document has the error fields, the input view \<open>doc_input\<close>, \<^verbatim>\<open>root_tag\<close> and the
  pointer \<^verbatim>\<open>root\<close> (\<open>None\<close> is the null pointer). \<open>doc_mem\<close> is the arena \<open>root\<close> points
  into. The view shares the caller's buffer, so the document of a failed parse sees
  the bytes as the parser left them.
\<close>

record document = failure +
  doc_root_tag :: tag
  doc_root :: "nat option"
  doc_mem :: "size_t list"

text \<open>The two private constructors and the default constructor of \<^verbatim>\<open>document\<close>.\<close>

definition document_of_root :: "byte list \<Rightarrow> tag \<Rightarrow> nat \<Rightarrow> size_t list \<Rightarrow> document" where
  "document_of_root inp rtag rptr m =
     \<lparr>error_line = 0, error_column = 0, error_code = ERROR_NO_ERROR, error_arg = 0,
      doc_input = inp, doc_root_tag = rtag, doc_root = Some rptr, doc_mem = m\<rparr>"

definition document_of_error :: "byte list \<Rightarrow> nat \<Rightarrow> nat \<Rightarrow> error \<Rightarrow> int \<Rightarrow> document" where
  "document_of_error inp line col code arg =
     \<lparr>error_line = line, error_column = col, error_code = code, error_arg = arg,
      doc_input = inp, doc_root_tag = tag_null, doc_root = None, doc_mem = []\<rparr>"

definition default_document :: document where
  "default_document = document_of_error [] 0 0 ERROR_UNINITIALIZED 0"

definition is_valid :: "document \<Rightarrow> bool" where
  "is_valid d = (doc_root_tag d = tag_array \<or> doc_root_tag d = tag_object)"

definition get_error_line :: "document \<Rightarrow> nat" where
  "get_error_line d = error_line d"

definition get_error_column :: "document \<Rightarrow> nat" where
  "get_error_column d = error_column d"

text \<open>
  \<^verbatim>\<open>parser::get_document()\<close>; \<open>None\<close> when the parse has left the arena, where C++
  defines no result.
\<close>

definition get_document :: "pstate \<Rightarrow> document option" where
  "get_document st =
     (case parser_parse st of
        Ok st1 \<Rightarrow> Some (document_of_root (input st1) (root_tag st1) (get_ast_root st1) (mem st1))
      | Failed f \<Rightarrow>
          Some (document_of_error (doc_input f) (error_line f) (error_column f) (error_code f)
                  (error_arg f))
      | Undefined \<Rightarrow> None)"

text \<open>
  \<^verbatim>\<open>single_allocation(existing_buffer, size_in_words)\<close> is the list of the words of the
  buffer. \<^verbatim>\<open>make_allocator\<close> fails when the buffer is shorter than the input and
  otherwise makes the allocator on the first \<^verbatim>\<open>input_document_size_in_bytes\<close> words.
\<close>

definition make_allocator :: "size_t list \<Rightarrow> byte list \<Rightarrow> bool \<times> pstate" where
  "make_allocator existing_buffer inp =
     (if length existing_buffer < length inp
      then (False, \<lparr>input = inp, mem = [], stack_top = 0, write_cursor = 0, root_tag = tag_null\<rparr>)
      else (True, \<lparr>input = inp, mem = take (length inp) existing_buffer, stack_top = 0,
                   write_cursor = length inp, root_tag = tag_null\<rparr>))"

text \<open>\<^verbatim>\<open>sajson::parse(strategy, string)\<close>.\<close>

definition parse :: "size_t list \<Rightarrow> byte list \<Rightarrow> document option" where
  "parse existing_buffer string =
     (let (success, allocator) = make_allocator existing_buffer string in
      if \<not> success then Some (document_of_error string 1 1 ERROR_OUT_OF_MEMORY 0)
      else get_document allocator)"

subsection \<open>Values\<close>

text \<open>
  A \<^verbatim>\<open>value\<close> is a tag and the pointer \<^verbatim>\<open>payload\<close>; the arena \<open>m\<close> and the text \<open>t\<close> it
  points into are those of its document. The null value \<^verbatim>\<open>value(tag::null, 0, 0)\<close> that
  \<^verbatim>\<open>get_value_of_key\<close> returns for a missing key is \<open>None\<close>.
\<close>

record sajson_value =
  value_tag :: tag
  payload :: nat

definition get_root :: "document \<Rightarrow> sajson_value option" where
  "get_root d =
     (case doc_root d of
        None \<Rightarrow> None
      | Some r \<Rightarrow> Some \<lparr>value_tag = doc_root_tag d, payload = r\<rparr>)"

definition get_length :: "size_t list \<Rightarrow> sajson_value \<Rightarrow> nat" where
  "get_length m v = unat (m ! payload v)"

definition get_array_element :: "size_t list \<Rightarrow> sajson_value \<Rightarrow> nat \<Rightarrow> sajson_value" where
  "get_array_element m v index =
     (let element = m ! (payload v + (1 + index))
      in \<lparr>value_tag = get_element_tag element,
          payload = payload v + unat (get_element_value element)\<rparr>)"

definition object_record :: "size_t list \<Rightarrow> sajson_value \<Rightarrow> nat \<Rightarrow> object_key_record" where
  "object_record m v index =
     (m ! (payload v + 1 + index * 3), m ! (payload v + 1 + index * 3 + 1),
      m ! (payload v + 1 + index * 3 + 2))"

definition get_object_key :: "size_t list \<Rightarrow> byte list \<Rightarrow> sajson_value \<Rightarrow> nat \<Rightarrow> byte list" where
  "get_object_key m t v index =
     (let s0 = m ! (payload v + 1 + index * 3);
          s1 = m ! (payload v + 1 + index * 3 + 1)
      in bytes_at t s0 (unat (s1 - s0)))"

definition get_object_value :: "size_t list \<Rightarrow> sajson_value \<Rightarrow> nat \<Rightarrow> sajson_value" where
  "get_object_value m v index =
     (let element = m ! (payload v + (3 + index * 3))
      in \<lparr>value_tag = get_element_tag element,
          payload = payload v + unat (get_element_value element)\<rparr>)"

definition get_integer_value :: "size_t list \<Rightarrow> sajson_value \<Rightarrow> int" where
  "get_integer_value m v = integer_storage_load (m ! payload v)"

definition get_double_value :: "size_t list \<Rightarrow> sajson_value \<Rightarrow> double" where
  "get_double_value m v = double_storage_load (m ! payload v)"

definition as_string :: "size_t list \<Rightarrow> byte list \<Rightarrow> sajson_value \<Rightarrow> byte list" where
  "as_string m t v =
     bytes_at t (m ! payload v) (unat (m ! (payload v + 1)) - unat (m ! payload v))"

text \<open>
  \<^verbatim>\<open>std::lower_bound(first, last, value, comp)\<close> is the C++ library's: the halving
  search of the standard, on the index \<open>first\<close> and the \<open>count\<close> of records left;
  \<open>less_than_key i\<close> is \<^verbatim>\<open>comp(*i, value)\<close>.
\<close>

function lower_bound :: "(nat \<Rightarrow> bool) \<Rightarrow> nat \<Rightarrow> nat \<Rightarrow> nat" where
  "lower_bound less_than_key first count =
     (if count > 0 then
        (let step = count div 2;
             it = first + step
         in if less_than_key it
            then lower_bound less_than_key (it + 1) (count - (step + 1))
            else lower_bound less_than_key first step)
      else first)"
  by pat_completeness auto
termination
  by (relation "measure (\<lambda>(less_than_key, first, count). count)") auto

declare lower_bound.simps [simp del]

text \<open>The \<^verbatim>\<open>for\<close> loop of the linear scan of \<^verbatim>\<open>find_object_key\<close>.\<close>

function linear_scan :: "(nat \<Rightarrow> bool) \<Rightarrow> nat \<Rightarrow> nat \<Rightarrow> nat" where
  "linear_scan matches i len =
     (if i < len then (if matches i then i else linear_scan matches (i + 1) len) else len)"
  by pat_completeness auto
termination
  by (relation "measure (\<lambda>(matches, i, len). len - i)") auto

declare linear_scan.simps [simp del]

definition find_object_key :: "size_t list \<Rightarrow> byte list \<Rightarrow> sajson_value \<Rightarrow> byte list \<Rightarrow> nat" where
  "find_object_key m t v key =
     (let len = get_length m v in
      if should_binary_search len then
        (let i = lower_bound (\<lambda>i. comparator_record_string t (object_record m v i) key) 0 len
         in if i \<noteq> len \<and> match t (object_record m v i) key then i else len)
      else linear_scan (\<lambda>i. match t (object_record m v i) key) 0 len)"

definition get_value_of_key ::
  "size_t list \<Rightarrow> byte list \<Rightarrow> sajson_value \<Rightarrow> byte list \<Rightarrow> sajson_value option"
where
  "get_value_of_key m t v key =
     (let i = find_object_key m t v key
      in if i < get_length m v then Some (get_object_value m v i) else None)"

subsection \<open>No failure of the parser is \<^verbatim>\<open>ERROR_OUT_OF_MEMORY\<close>\<close>

lemma error_code_make_error [simp]: "error_code (make_error inp p code arg) = code"
  by (simp add: make_error_def Let_def split: prod.splits)

lemma int_digits_code:
  "int_digits inp p c t i d = Inl f \<Longrightarrow> error_code f = ERROR_UNEXPECTED_END"
proof (induction "length inp - p" arbitrary: p c t i d rule: less_induct)
  case less
  from less.prems show ?case
    by (subst (asm) int_digits.simps)
       (fastforce simp: at_eof_def Let_def split: if_splits dest!: less.hyps [rotated])
qed

lemma frac_digits_code:
  "frac_digits inp p c d e = Inl f \<Longrightarrow> error_code f = ERROR_UNEXPECTED_END"
proof (induction "length inp - p" arbitrary: p c d e rule: less_induct)
  case less
  from less.prems show ?case
    by (subst (asm) frac_digits.simps)
       (fastforce simp: at_eof_def Let_def split: if_splits dest!: less.hyps [rotated])
qed

lemma exp_digits_code:
  "exp_digits inp p c e = Inl f \<Longrightarrow> error_code f = ERROR_UNEXPECTED_END"
proof (induction "length inp - p" arbitrary: p c e rule: less_induct)
  case less
  from less.prems show ?case
    by (subst (asm) exp_digits.simps)
       (fastforce simp: at_eof_def Let_def split: if_splits dest!: less.hyps [rotated])
qed

lemma reserve_success: "reserve n st = Some (a, ok, st') \<Longrightarrow> ok"
  by (auto simp: reserve_def split: if_splits)

lemma push_success: "push e st = Some (ok, st') \<Longrightarrow> ok"
  by (auto simp: push_def split: option.splits)

lemma parse_number_code:
  "parse_number st p = Failed f \<Longrightarrow> error_code f \<noteq> ERROR_OUT_OF_MEMORY"
  by (auto simp: parse_number_def number_integer_part_def number_fraction_def
        number_exponent_def Let_def
      split: if_splits sum.splits prod.splits option.splits
      dest!: int_digits_code frac_digits_code exp_digits_code reserve_success)

lemma read_hex_loop_code:
  "read_hex_loop inp p i v = Inl f \<Longrightarrow> error_code f = ERROR_INVALID_UNICODE_ESCAPE"
proof (induction i arbitrary: p v rule: less_induct)
  case (less i)
  from less.prems show ?case
    by (subst (asm) read_hex_loop.simps)
       (fastforce simp: Let_def split: if_splits dest!: less.IH [rotated])
qed

lemma parse_unicode_escape_code:
  "parse_unicode_escape inp p e = Error f \<Longrightarrow> error_code f \<noteq> ERROR_OUT_OF_MEMORY"
  by (auto simp: parse_unicode_escape_def read_hex_def Let_def
      split: if_splits sum.splits prod.splits dest!: read_hex_loop_code)

lemma copy_utf8_code:
  "copy_utf8 inp p e = Error f \<Longrightarrow> error_code f \<noteq> ERROR_OUT_OF_MEMORY"
  by (auto simp: copy_utf8_def Let_def split: if_splits)

lemma slow_iteration_code:
  "slow_iteration inp p e = Error f \<Longrightarrow> error_code f \<noteq> ERROR_OUT_OF_MEMORY"
  by (auto simp: slow_iteration_def Let_def split: if_splits
      dest!: parse_unicode_escape_code copy_utf8_code)

lemma slow_loop_code:
  "slow_loop inp p e = Inl f \<Longrightarrow> error_code f \<noteq> ERROR_OUT_OF_MEMORY"
proof (induction inp p e rule: slow_loop.induct)
  case (1 inp p e)
  show ?case
  proof (cases "slow_iteration inp p e")
    case (Continue inp1 p1 e1)
    with "1.prems" have "slow_loop inp1 p1 e1 = Inl f"
      by (subst (asm) slow_loop.simps) simp
    from "1.IH" [OF Continue this] show ?thesis .
  next
    case Closing
    with "1.prems" show ?thesis by (subst (asm) slow_loop.simps) simp
  next
    case (Error g)
    with "1.prems" slow_iteration_code [OF Error] show ?thesis
      by (subst (asm) slow_loop.simps) simp
  qed
qed

lemma parse_string_code:
  "parse_string st p tg = Failed f \<Longrightarrow> error_code f \<noteq> ERROR_OUT_OF_MEMORY"
  by (auto simp: parse_string_def parse_string_slow_def Let_def
      split: if_splits sum.splits prod.splits option.splits dest!: slow_loop_code)

lemma install_array_success: "install_array b e st = Some (ok, st') \<Longrightarrow> ok"
  by (auto simp: install_array_def Let_def split: if_splits option.splits prod.splits
      dest!: reserve_success)

lemma install_object_success: "install_object b e st = Some (ok, st') \<Longrightarrow> ok"
  by (auto simp: install_object_def Let_def split: if_splits option.splits prod.splits
      dest!: reserve_success)

lemma push_value_code:
  "push_value p cb cst t st = Return (Failed f) \<Longrightarrow> error_code f \<noteq> ERROR_OUT_OF_MEMORY"
  by (auto simp: push_value_def fail_def split: option.splits if_splits dest!: push_success)

lemma pop_code:
  "pop p cb cst el st = Return (Failed f) \<Longrightarrow> error_code f \<noteq> ERROR_OUT_OF_MEMORY"
  by (auto simp: pop_def fail_def Let_def split: option.splits if_splits dest!: push_value_code)

lemma pop_array_code:
  "pop_array p cb cst st = Return (Failed f) \<Longrightarrow> error_code f \<noteq> ERROR_OUT_OF_MEMORY"
  by (auto simp: pop_array_def fail_def Let_def split: option.splits if_splits
      dest!: pop_code install_array_success)

lemma pop_object_code:
  "pop_object p cb cst st = Return (Failed f) \<Longrightarrow> error_code f \<noteq> ERROR_OUT_OF_MEMORY"
  by (auto simp: pop_object_def fail_def Let_def split: option.splits if_splits
      dest!: pop_code install_object_success)

lemma parse_literal_code:
  "parse_null inp p = Inl f \<Longrightarrow> error_code f \<noteq> ERROR_OUT_OF_MEMORY"
  "parse_false inp p = Inl f \<Longrightarrow> error_code f \<noteq> ERROR_OUT_OF_MEMORY"
  "parse_true inp p = Inl f \<Longrightarrow> error_code f \<noteq> ERROR_OUT_OF_MEMORY"
  by (auto simp: parse_null_def parse_false_def parse_true_def split: if_splits)

lemma step_code:
  "step l p cb cst st = Return (Failed f) \<Longrightarrow> error_code f \<noteq> ERROR_OUT_OF_MEMORY"
proof (cases l)
  case array_close_or_element
  then show "step l p cb cst st = Return (Failed f) \<Longrightarrow> ?thesis"
    by (auto simp: array_close_or_element_step_def fail_def split: option.splits if_splits
        dest!: pop_array_code)
next
  case object_close_or_element
  then show "step l p cb cst st = Return (Failed f) \<Longrightarrow> ?thesis"
    by (auto simp: object_close_or_element_step_def fail_def split: option.splits if_splits
        dest!: pop_object_code)
next
  case structure_close_or_comma
  then show "step l p cb cst st = Return (Failed f) \<Longrightarrow> ?thesis"
    by (auto simp: structure_close_or_comma_step_def fail_def split: option.splits if_splits
        dest!: pop_object_code pop_array_code)
next
  case object_key
  then show "step l p cb cst st = Return (Failed f) \<Longrightarrow> ?thesis"
    by (auto simp: object_key_step_def fail_def stack_reserve_def
        split: option.splits if_splits outcome.splits prod.splits
        dest!: parse_string_code)
next
  case next_element
  then show "step l p cb cst st = Return (Failed f) \<Longrightarrow> ?thesis"
    by (auto simp: next_element_step_def fail_def Let_def
        split: option.splits if_splits outcome.splits prod.splits sum.splits
        dest!: parse_string_code parse_number_code parse_literal_code push_value_code
          push_success reserve_success)
qed

lemma run_code:
  "run l p cb cst st = Failed f \<Longrightarrow> error_code f \<noteq> ERROR_OUT_OF_MEMORY"
proof (induction l p cb cst st rule: run.induct)
  case (1 l p cb cst st)
  show ?case
  proof (cases "step l p cb cst st")
    case (Goto l1 p1 cb1 cst1 st1)
    with "1.prems" have "run l1 p1 cb1 cst1 st1 = Failed f"
      by (subst (asm) run.simps) simp
    from "1.IH" [OF Goto this] show ?thesis .
  next
    case (Return r)
    with "1.prems" step_code [of l p cb cst st f] show ?thesis
      by (subst (asm) run.simps) simp
  qed
qed

lemma parser_parse_code:
  "parser_parse st = Failed f \<Longrightarrow> error_code f \<noteq> ERROR_OUT_OF_MEMORY"
  by (auto simp: parser_parse_def Let_def split: option.splits if_splits
      dest!: run_code push_success)

section \<open>The claims\<close>

subsection \<open>The error position (C8)\<close>

text \<open>
  The position as the specification words it, on the bytes before the failure
  pointer: a break is \<^verbatim>\<open>\n\<close>, \<^verbatim>\<open>\r\<close> or the pair \<^verbatim>\<open>\r\n\<close>, counted once; the column
  counts the bytes after the last break.
\<close>

definition is_break :: "byte \<Rightarrow> bool" where
  "is_break c = (c = ch CHR 0x0D \<or> c = ch CHR 0x0A)"

fun line_breaks :: "byte list \<Rightarrow> nat" where
  "line_breaks [] = 0"
| "line_breaks [c] = (if is_break c then 1 else 0)"
| "line_breaks (c # d # cs) =
     (if c = ch CHR 0x0D \<and> d = ch CHR 0x0A then 1 + line_breaks cs
      else if is_break c then 1 + line_breaks (d # cs)
      else line_breaks (d # cs))"

definition bytes_since_break :: "byte list \<Rightarrow> nat" where
  "bytes_since_break bs = length (takeWhile (\<lambda>c. \<not> is_break c) (rev bs))"

lemma bytes_since_break_Cons:
  "bytes_since_break (x # xs) =
     (if (\<exists>b\<in>set xs. is_break b) then bytes_since_break xs
      else if is_break x then length xs else 1 + length xs)"
  by (auto simp: bytes_since_break_def takeWhile_append takeWhile_eq_all_conv [THEN iffD2])

lemma segment_Cons:
  "c < p \<Longrightarrow> p \<le> length inp \<Longrightarrow> drop c (take p inp) = inp ! c # drop (Suc c) (take p inp)"
  by (simp add: Cons_nth_drop_Suc [symmetric])

lemma error_walk_eq:
  "c \<le> p \<Longrightarrow> p \<le> length inp \<Longrightarrow>
   error_walk inp p c line col =
     (line + line_breaks (drop c (take p inp)),
      if (\<exists>b\<in>set (drop c (take p inp)). is_break b)
      then 1 + bytes_since_break (drop c (take p inp)) else col + (p - c))"
proof (induction inp p c line col rule: error_walk.induct)
  case (1 inp p c line col)
  show ?case
  proof (cases "c < p")
    case False
    with "1.prems" show ?thesis by (subst error_walk.simps) simp
  next
    case True
    note seg = segment_Cons [OF True "1.prems"(2)]
    show ?thesis
    proof (cases "c + 1 < p")
      case False
      with True "1.prems" have tl: "drop (Suc c) (take p inp) = []" by simp
      have rec: "error_walk inp p (Suc c) l k = (l, k)" for l k
        using False by (subst error_walk.simps) simp
      from True False have "p - c = 1" by simp
      with True False show ?thesis
        by (subst error_walk.simps) (simp add: seg tl rec is_break_def bytes_since_break_Cons)
    next
      case next_in: True
      have seg2: "drop (Suc c) (take p inp) = inp ! Suc c # drop (Suc (Suc c)) (take p inp)"
        using segment_Cons [of "Suc c" p inp] next_in "1.prems" by simp
      from True next_in "1.prems" "1.IH" show ?thesis
        by (subst error_walk.simps)
           (auto simp: seg seg2 is_break_def bytes_since_break_Cons)
    qed
  qed
qed

text \<open>
  \<^verbatim>\<open>make_error\<close> follows that rule on the buffer it walks: the line is 1 plus the
  number of breaks before the pointer \<open>p\<close> (the end of the buffer for the null
  pointer) and the column is 1 plus the number of bytes since the last break.
\<close>

lemma make_error_on_buffer:
  "p \<le> length inp \<Longrightarrow>
     make_error inp (Some p) code arg =
       \<lparr>error_line = 1 + line_breaks (take p inp),
        error_column = 1 + bytes_since_break (take p inp),
        error_code = code, error_arg = arg, doc_input = inp\<rparr>
     \<and> make_error inp None code arg = make_error inp (Some (length inp)) code arg"
proof -
  assume p: "p \<le> length inp"
  have full: "bytes_since_break xs = length xs" if "\<not> (\<exists>b\<in>set xs. is_break b)" for xs
    using that by (simp add: bytes_since_break_def takeWhile_eq_all_conv [THEN iffD2])
  from p have "error_walk inp p 0 1 1 =
      (1 + line_breaks (take p inp), 1 + bytes_since_break (take p inp))"
    by (simp add: error_walk_eq full)
  then show ?thesis by (simp add: make_error_def)
qed

text \<open>
  C8. The position a failed parse reports is not the rule's position in the input.
  \<^verbatim>\<open>make_error\<close> walks the parser's buffer, in which the strings before the failure
  pointer have been decoded in place. The input \<^verbatim>\<open>["\n\q"]\<close> has no line break and
  fails at its byte 5, line 1 and column 6 of the input; the escape \<^verbatim>\<open>\n\<close> has been
  written to the buffer as the byte \<open>0x0A\<close> by then, and the document reports
  \<^verbatim>\<open>ERROR_UNKNOWN_ESCAPE\<close> at line 2, column 3. In the same way
  \<^verbatim>\<open>{"a":"x\ny" "b":1}\<close>, which fails at its byte 12, line 1 and column 13, reports
  \<^verbatim>\<open>ERROR_EXPECTED_COMMA\<close> at line 2, column 5.
\<close>

theorem error_position_after_escape:
  \<open>map_option (\<lambda>d. (error_code d, get_error_line d, get_error_column d, doc_input d))
     (parse (replicate 8 0) (map ch (''["'' @ [CHR 0x5C] @ ''n'' @ [CHR 0x5C] @ ''q"]'')))
     = Some (ERROR_UNKNOWN_ESCAPE, 2, 3,
             map ch (''["'' @ [CHR 0x0A] @ ''n'' @ [CHR 0x5C] @ ''q"]''))
   \<and> filter is_break (map ch (''["'' @ [CHR 0x5C] @ ''n'' @ [CHR 0x5C] @ ''q"]'')) = []
   \<and> 1 + line_breaks (take 5 (map ch (''["'' @ [CHR 0x5C] @ ''n'' @ [CHR 0x5C] @ ''q"]''))) = 1
   \<and> 1 + bytes_since_break (take 5 (map ch (''["'' @ [CHR 0x5C] @ ''n'' @ [CHR 0x5C] @ ''q"]''))) = 6
   \<and> map_option (\<lambda>d. (error_code d, get_error_line d, get_error_column d))
       (parse (replicate 19 0) (map ch (''{"a":"x'' @ [CHR 0x5C] @ ''ny" "b":1}'')))
     = Some (ERROR_EXPECTED_COMMA, 2, 5)
   \<and> filter is_break (map ch (''{"a":"x'' @ [CHR 0x5C] @ ''ny" "b":1}'')) = []
   \<and> 1 + line_breaks (take 12 (map ch (''{"a":"x'' @ [CHR 0x5C] @ ''ny" "b":1}''))) = 1
   \<and> 1 + bytes_since_break (take 12 (map ch (''{"a":"x'' @ [CHR 0x5C] @ ''ny" "b":1}''))) = 13\<close>
  by code_simp

subsection \<open>The validity of a document (C5)\<close>

text \<open>
  C5. \<^verbatim>\<open>is_valid()\<close> is true exactly when the root tag of the document is array or
  object. A document made from an error, and the default document, have the root tag
  null and are not valid; so a document that \<^verbatim>\<open>get_document\<close> or \<^verbatim>\<open>sajson::parse\<close>
  returns is valid only if \<^verbatim>\<open>parser::parse()\<close> has returned true, and it is then the
  document of the root the parse has left.
\<close>

theorem is_valid_needs_successful_parse:
  "(is_valid d \<longleftrightarrow> doc_root_tag d = tag_array \<or> doc_root_tag d = tag_object)
   \<and> \<not> is_valid (document_of_error inp line col code arg)
   \<and> \<not> is_valid default_document
   \<and> (get_document st = Some d1 \<and> is_valid d1 \<longrightarrow>
        (\<exists>st1. parser_parse st = Ok st1 \<and>
           d1 = document_of_root (input st1) (root_tag st1) (get_ast_root st1) (mem st1)))
   \<and> (parse buffer string = Some d2 \<and> is_valid d2 \<longrightarrow>
        length string \<le> length buffer \<and>
        (\<exists>st1. parser_parse (snd (make_allocator buffer string)) = Ok st1))"
  by (auto simp: is_valid_def document_of_error_def default_document_def get_document_def
        parse_def make_allocator_def
      split: outcome.splits if_splits)

theorem is_valid_needs_successful_parse_witness:
  \<open>parse [0, 0] (map ch ''[]'') = Some (document_of_root (map ch ''[]'') tag_array 1 [- 2, 0])
   \<and> is_valid (document_of_root (map ch ''[]'') tag_array 1 [- 2, 0])
   \<and> get_document (snd (make_allocator [0, 0] (map ch ''[]'')))
        = Some (document_of_root (map ch ''[]'') tag_array 1 [- 2, 0])
   \<and> length (map ch ''[]'') \<le> length [0, 0 :: size_t]
   \<and> (\<exists>st1. parser_parse (snd (make_allocator [0, 0] (map ch ''[]''))) = Ok st1)
   \<and> parse [0, 0, 0, 0] (map ch ''[1,]'')
        = Some (document_of_error (map ch ''[1,]'') 1 4 ERROR_EXPECTED_VALUE 0)
   \<and> \<not> is_valid (document_of_error (map ch ''[1,]'') 1 4 ERROR_EXPECTED_VALUE 0)\<close>
proof -
  have p: \<open>parse [0, 0] (map ch ''[]'') = Some (document_of_root (map ch ''[]'') tag_array 1 [- 2, 0])\<close>
    by code_simp
  have g: \<open>get_document (snd (make_allocator [0, 0] (map ch ''[]'')))
        = Some (document_of_root (map ch ''[]'') tag_array 1 [- 2, 0])\<close>
    by code_simp
  have v: \<open>is_valid (document_of_root (map ch ''[]'') tag_array 1 [- 2, 0])\<close>
    by (simp add: is_valid_def document_of_root_def)
  have q: \<open>parse [0, 0, 0, 0] (map ch ''[1,]'')
        = Some (document_of_error (map ch ''[1,]'') 1 4 ERROR_EXPECTED_VALUE 0)\<close>
    by code_simp
  from p g v q is_valid_needs_successful_parse
    [of \<open>document_of_root (map ch ''[]'') tag_array 1 [- 2, 0]\<close> \<open>map ch ''[1,]''\<close> 1 4
       ERROR_EXPECTED_VALUE 0 \<open>snd (make_allocator [0, 0] (map ch ''[]''))\<close>
       \<open>document_of_root (map ch ''[]'') tag_array 1 [- 2, 0]\<close> \<open>[0, 0]\<close> \<open>map ch ''[]''\<close>
       \<open>document_of_root (map ch ''[]'') tag_array 1 [- 2, 0]\<close>]
  show ?thesis by simp
qed

subsection \<open>Pushing on the scratch stack (C6)\<close>

text \<open>
  C6 as stated fails: with the low stack top equal to the high stack top (the write
  cursor), \<^verbatim>\<open>push\<close> writes and returns true, and the parse of the three bytes
  \<^verbatim>\<open>[""\<close>, which pushes in that very state, ends with \<^verbatim>\<open>ERROR_UNEXPECTED_END\<close>, not
  with \<^verbatim>\<open>ERROR_OUT_OF_MEMORY\<close>.
\<close>

theorem push_at_write_cursor_counterexample:
  \<open>stack_top \<lparr>input = map ch ''[""'', mem = [- 2, 2, 2], stack_top = 1, write_cursor = 1,
       root_tag = tag_null\<rparr>
    = write_cursor \<lparr>input = map ch ''[""'', mem = [- 2, 2, 2], stack_top = 1, write_cursor = 1,
       root_tag = tag_null\<rparr>
   \<and> push 21 \<lparr>input = map ch ''[""'', mem = [- 2, 2, 2], stack_top = 1, write_cursor = 1,
       root_tag = tag_null\<rparr>
    = Some (True, \<lparr>input = map ch ''[""'', mem = [- 2, 21, 2], stack_top = 2, write_cursor = 1,
       root_tag = tag_null\<rparr>)
   \<and> map_option error_code (parse [0, 0, 0] (map ch ''[""'')) = Some ERROR_UNEXPECTED_END\<close>
proof -
  have \<open>map_option error_code (parse [0, 0, 0] (map ch ''[""'')) = Some ERROR_UNEXPECTED_END\<close>
    by code_simp
  then show ?thesis by (simp add: push_def store_def)
qed

lemma get_document_code:
  "get_document st = Some d \<Longrightarrow> error_code d \<noteq> ERROR_OUT_OF_MEMORY"
  by (auto simp: get_document_def document_of_root_def document_of_error_def
      split: outcome.splits dest!: parser_parse_code)

text \<open>
  C6, amended. A scratch-stack push writes the element at the low stack top and
  bumps the top up by one, and it always returns true: \<^verbatim>\<open>single_allocation\<close> makes
  no comparison with the high stack top. No parse reports \<^verbatim>\<open>ERROR_OUT_OF_MEMORY\<close>
  because of a push: a document has that code only when \<^verbatim>\<open>make_allocator\<close> was given
  a buffer of fewer words than the input has bytes.
\<close>

theorem push_always_succeeds:
  "(stack_top st < length (mem st) \<longrightarrow>
      push element st =
        Some (True, st\<lparr>mem := (mem st)[stack_top st := element], stack_top := stack_top st + 1\<rparr>))
   \<and> (parse buffer string = Some d \<and> error_code d = ERROR_OUT_OF_MEMORY \<longrightarrow>
        length buffer < length string)"
  by (auto simp: push_def store_def parse_def make_allocator_def
      split: if_splits dest!: get_document_code)

theorem push_always_succeeds_witness:
  \<open>stack_top \<lparr>input = map ch ''[""'', mem = [- 2, 2, 2], stack_top = 1, write_cursor = 1,
       root_tag = tag_null\<rparr> < length [- 2, 2, 2 :: size_t]
   \<and> push 21 \<lparr>input = map ch ''[""'', mem = [- 2, 2, 2], stack_top = 1, write_cursor = 1,
       root_tag = tag_null\<rparr>
    = Some (True, \<lparr>input = map ch ''[""'', mem = [- 2, 21, 2], stack_top = 2, write_cursor = 1,
       root_tag = tag_null\<rparr>)
   \<and> parse [0] (map ch ''[]'') = Some (document_of_error (map ch ''[]'') 1 1 ERROR_OUT_OF_MEMORY 0)
   \<and> error_code (document_of_error (map ch ''[]'') 1 1 ERROR_OUT_OF_MEMORY 0) = ERROR_OUT_OF_MEMORY
   \<and> length [0 :: size_t] < length (map ch ''[]'')\<close>
proof -
  have p: \<open>parse [0] (map ch ''[]'') = Some (document_of_error (map ch ''[]'') 1 1 ERROR_OUT_OF_MEMORY 0)\<close>
    by (simp add: parse_def make_allocator_def)
  have c: \<open>error_code (document_of_error (map ch ''[]'') 1 1 ERROR_OUT_OF_MEMORY 0) = ERROR_OUT_OF_MEMORY\<close>
    by (simp add: document_of_error_def)
  from p c push_always_succeeds
    [of \<open>\<lparr>input = map ch ''[""'', mem = [- 2, 2, 2], stack_top = 1, write_cursor = 1,
       root_tag = tag_null\<rparr>\<close> 21 \<open>[0]\<close> \<open>map ch ''[]''\<close>
       \<open>document_of_error (map ch ''[]'') 1 1 ERROR_OUT_OF_MEMORY 0\<close>]
  show ?thesis by simp
qed

subsection \<open>\<^verbatim>\<open>pow10\<close> (C7)\<close>

text \<open>
  C7. For every exponent from -323 to 308, \<^verbatim>\<open>pow10\<close> returns the entry of the
  table for it, which is the literal \<^verbatim>\<open>1e<exponent>\<close>; below -323 it returns \<open>0.0\<close>
  and above 308 positive infinity. So the literal \<^verbatim>\<open>1e400\<close> parses: the document of
  \<^verbatim>\<open>{"k": 1e400}\<close> is valid, and the value of its one key is a double equal to
  positive infinity.
\<close>

theorem pow10_table_and_range:
  \<open>(- 323 \<le> e \<and> e \<le> 308 \<longrightarrow> pow10 e = constants ! nat (e + 323) \<and> pow10 e = d_literal_1e e)
   \<and> (e < - 323 \<longrightarrow> pow10 e = 0)
   \<and> (308 < e \<longrightarrow> pow10 e = d_infinity False)
   \<and> d_infinity False = 0x7FF0000000000000
   \<and> (case parse (replicate 12 0) (map ch ''{"k": 1e400}'') of
         None \<Rightarrow> False
       | Some d \<Rightarrow>
           is_valid d \<and>
           (case get_root d of
              None \<Rightarrow> False
            | Some r \<Rightarrow>
                value_tag r = tag_object \<and> get_length (doc_mem d) r = 1 \<and>
                value_tag (get_object_value (doc_mem d) r 0) = tag_double \<and>
                get_double_value (doc_mem d) (get_object_value (doc_mem d) r 0)
                  = d_infinity False))\<close>
proof -
  have inf: "d_infinity False = 0x7FF0000000000000"
    by code_simp
  have ex: \<open>(case parse (replicate 12 0) (map ch ''{"k": 1e400}'') of
         None \<Rightarrow> False
       | Some d \<Rightarrow>
           is_valid d \<and>
           (case get_root d of
              None \<Rightarrow> False
            | Some r \<Rightarrow>
                value_tag r = tag_object \<and> get_length (doc_mem d) r = 1 \<and>
                value_tag (get_object_value (doc_mem d) r 0) = tag_double \<and>
                get_double_value (doc_mem d) (get_object_value (doc_mem d) r 0)
                  = d_infinity False))\<close>
    by code_simp
  show ?thesis
    using inf ex by (auto simp: pow10_def constants_nth)
qed

theorem pow10_table_and_range_witness:
  "((- 323 :: int) \<le> 0 \<and> (0 :: int) \<le> 308) \<and> pow10 0 = 0x3FF0000000000000
   \<and> ((- 323 :: int) \<le> - 323 \<and> (- 323 :: int) \<le> 308) \<and> pow10 (- 323) = 2
   \<and> (- 324 :: int) < - 323 \<and> pow10 (- 324) = 0
   \<and> (308 :: int) < 400 \<and> pow10 400 = 0x7FF0000000000000"
proof -
  have a: "d_literal_1e 0 = 0x3FF0000000000000" by code_simp
  have b: "d_literal_1e (- 323) = 2" by code_simp
  have r0: "(- 323 :: int) \<le> 0 \<and> (0 :: int) \<le> 308" by simp
  have r1: "(- 323 :: int) \<le> - 323 \<and> (- 323 :: int) \<le> 308" by simp
  have r2: "(- 324 :: int) < - 323" by simp
  have r3: "(308 :: int) < 400" by simp
  have w0: "pow10 0 = d_literal_1e 0"
    using pow10_table_and_range [of 0] r0 by blast
  have w1: "pow10 (- 323) = d_literal_1e (- 323)"
    using pow10_table_and_range [of "- 323"] r1 by blast
  have w2: "pow10 (- 324) = 0"
    using pow10_table_and_range [of "- 324"] r2 by blast
  have w3: "pow10 400 = d_infinity False \<and> d_infinity False = 0x7FF0000000000000"
    using pow10_table_and_range [of 400] r3 by blast
  from a b w0 w1 w2 w3 r0 r1 r2 r3 show ?thesis by simp
qed

subsection \<open>A leading zero (C10)\<close>

lemma is_digit_cases:
  "is_digit c \<Longrightarrow> unat c \<in> {48, 49, 50, 51, 52, 53, 54, 55, 56, 57}"
proof -
  assume "is_digit c"
  then have "48 \<le> unat c \<and> unat c \<le> 57"
    by (simp add: is_digit_def word_le_nat_alt)
  then show ?thesis by (auto simp: le_Suc_eq numeral_eq_Suc)
qed

lemma is_digit_not_whitespace: "is_digit c \<Longrightarrow> \<not> is_whitespace c"
  by (drule is_digit_cases) (auto simp: is_whitespace_def parse_flags_def)

lemma is_digit_distinct:
  "is_digit c \<Longrightarrow>
     c \<noteq> ch CHR ''.'' \<and> c \<noteq> ch CHR ''e'' \<and> c \<noteq> ch CHR ''E'' \<and> c \<noteq> ch CHR '']''
     \<and> c \<noteq> ch CHR ''}'' \<and> c \<noteq> ch CHR '','' \<and> c \<noteq> ch CHR ''-'' \<and> c \<noteq> 0"
  by (auto simp: is_digit_def)

lemma skip_whitespace_here:
  "q < length inp \<Longrightarrow> \<not> is_whitespace (inp ! q) \<Longrightarrow> skip_whitespace inp q = Some q"
  by (subst skip_whitespace.simps) (simp add: at_eof_def)

lemma mask32: "(0xFFFFFFFF :: 64 word) = mask 32"
  by (simp add: mask_eq_exp_minus_1)

lemma integer_storage_roundtrip:
  "integer_storage_load (integer_storage_store old v) = sint (word_of_int v :: 32 word)"
proof -
  have "(ucast ((old AND NOT (mask 32)) OR ucast (w :: 32 word)) :: 32 word) = w" for w
    by (rule bit_word_eqI) (auto simp: bit_simps)
  then show ?thesis
    by (simp add: integer_storage_load_def integer_storage_store_def mask32)
qed

lemma parse_number_leading_zero:
  assumes "input st ! q = ch CHR ''0''" and "q + 1 < length (input st)"
    and "is_digit (input st ! (q + 1))"
    and "0 < write_cursor st" and "write_cursor st \<le> length (mem st)"
  shows "parse_number st q =
     Ok (q + 1, tag_integer,
         st\<lparr>write_cursor := write_cursor st - 1,
            mem := (mem st)[write_cursor st - 1 :=
              integer_storage_store (mem st ! (write_cursor st - 1)) 0]\<rparr>)"
  using assms is_digit_distinct [OF assms(3)]
  by (simp add: parse_number_def number_integer_part_def number_fraction_def
      number_exponent_def at_eof_def reserve_def store_def Let_def)

lemma leading_zero_run:
  assumes "input st ! q = ch CHR ''0''" and "q + 1 < length (input st)"
    and "is_digit (input st ! (q + 1))"
    and "0 < write_cursor st" and "write_cursor st \<le> length (mem st)"
    and "stack_top st < length (mem st)"
    and "skip_whitespace (input st) p = Some q"
  shows "run next_element p cb cst st =
     Failed (make_error (input st) (Some (q + 1)) ERROR_EXPECTED_COMMA 0)"
proof -
  let ?st1 = "st\<lparr>write_cursor := write_cursor st - 1,
            mem := (mem st)[write_cursor st - 1 :=
              integer_storage_store (mem st ! (write_cursor st - 1)) 0]\<rparr>"
  have d0: "is_digit (input st ! q)" using assms(1) by (simp add: is_digit_def)
  have n: "parse_number st q = Ok (q + 1, tag_integer, ?st1)"
    using assms(1-5) by (rule parse_number_leading_zero)
  obtain st2 where
    s1: "next_element_step p cb cst st = Goto structure_close_or_comma (Suc q) cb cst st2"
    and i2: "input st2 = input st"
    using assms(1,6,7) d0 n
    by (simp add: next_element_step_def push_value_def push_def store_def Let_def)
  have ws: "skip_whitespace (input st2) (Suc q) = Some (Suc q)"
    using assms(2,3) i2 by (simp add: skip_whitespace_here is_digit_not_whitespace)
  have s2: "structure_close_or_comma_step (Suc q) cb cst st2 =
      Return (Failed (make_error (input st) (Some (Suc q)) ERROR_EXPECTED_COMMA 0))"
    using ws i2 is_digit_distinct [OF assms(3)]
    by (simp add: structure_close_or_comma_step_def fail_def)
  have r1: "run next_element p cb cst st = run structure_close_or_comma (Suc q) cb cst st2"
    by (subst run.simps) (simp add: s1)
  have r2: "run structure_close_or_comma (Suc q) cb cst st2 =
      Failed (make_error (input st) (Some (Suc q)) ERROR_EXPECTED_COMMA 0)"
    by (subst run.simps) (simp add: s2)
  show ?thesis by (simp add: r1 r2)
qed

text \<open>
  C10. When a number token begins with the digit 0 and the next byte is another digit,
  \<^verbatim>\<open>parse_number\<close> consumes only the 0 and stores the integer 0; the machine then
  pushes the value and, at \<^verbatim>\<open>structure_close_or_comma\<close>, fails at the second digit with
  \<^verbatim>\<open>ERROR_EXPECTED_COMMA\<close>, in an array and in an object alike. The hypotheses on the
  arena say that the word the integer is stored in, and the slot the value is pushed
  to, lie inside it.
\<close>

theorem leading_zero_then_digit:
  assumes "input st ! q = ch CHR ''0''" and "q + 1 < length (input st)"
    and "is_digit (input st ! (q + 1))"
    and "0 < write_cursor st" and "write_cursor st \<le> length (mem st)"
    and "stack_top st < length (mem st)"
    and "skip_whitespace (input st) p = Some q"
  shows "(\<exists>st1. parse_number st q = Ok (q + 1, tag_integer, st1) \<and>
            write_cursor st1 = write_cursor st - 1 \<and>
            get_integer_value (mem st1) \<lparr>value_tag = tag_integer, payload = write_cursor st1\<rparr> = 0)
         \<and> run next_element p current_base current_structure_tag st =
             Failed (make_error (input st) (Some (q + 1)) ERROR_EXPECTED_COMMA 0)"
proof -
  have "integer_storage_load (integer_storage_store w 0) = 0" for w
    by (simp add: integer_storage_roundtrip)
  with assms(4,5) parse_number_leading_zero [OF assms(1-5)]
    leading_zero_run [OF assms]
  show ?thesis by (simp add: get_integer_value_def)
qed

theorem leading_zero_then_digit_witness:
  "input \<lparr>input = map ch ''[01]'', mem = [- 2, 0, 0, 0], stack_top = 1, write_cursor = 4,
       root_tag = tag_null\<rparr> ! 1 = ch CHR ''0''
   \<and> is_digit (map ch ''[01]'' ! (1 + 1))
   \<and> skip_whitespace (map ch ''[01]'') 1 = Some 1
   \<and> run next_element 1 0 tag_array
        \<lparr>input = map ch ''[01]'', mem = [- 2, 0, 0, 0], stack_top = 1, write_cursor = 4,
         root_tag = tag_null\<rparr>
      = Failed \<lparr>error_line = 1, error_column = 3, error_code = ERROR_EXPECTED_COMMA, error_arg = 0,
                 doc_input = map ch ''[01]''\<rparr>
   \<and> parse [0, 0, 0, 0] (map ch ''[01]'')
      = Some (document_of_error (map ch ''[01]'') 1 3 ERROR_EXPECTED_COMMA 0)"
proof -
  let ?st = "\<lparr>input = map ch ''[01]'', mem = [- 2, 0, 0, 0], stack_top = 1, write_cursor = 4,
       root_tag = tag_null\<rparr>"
  have h1: "input ?st ! 1 = ch CHR ''0''" by simp
  have h2: "1 + 1 < length (input ?st)" by simp
  have h3: "is_digit (input ?st ! (1 + 1))" by (simp add: is_digit_def)
  have h4: "0 < write_cursor ?st" by simp
  have h5: "write_cursor ?st \<le> length (mem ?st)" by simp
  have h6: "stack_top ?st < length (mem ?st)" by simp
  have h7: "skip_whitespace (input ?st) 1 = Some 1" by code_simp
  have e: "make_error (map ch ''[01]'') (Some (1 + 1)) ERROR_EXPECTED_COMMA 0
      = \<lparr>error_line = 1, error_column = 3, error_code = ERROR_EXPECTED_COMMA, error_arg = 0,
         doc_input = map ch ''[01]''\<rparr>"
    by code_simp
  have p: "parse [0, 0, 0, 0] (map ch ''[01]'')
      = Some (document_of_error (map ch ''[01]'') 1 3 ERROR_EXPECTED_COMMA 0)"
    by code_simp
  from leading_zero_then_digit [OF h1 h2 h3 h4 h5 h6 h7, of 0 tag_array] h1 h3 h7 e p
  show ?thesis by simp
qed

subsection \<open>Unicode escapes in the slow string path (C9, C3)\<close>

text \<open>
  The UTF-8 encoding of a code point as the standard gives it, by arithmetic, and the
  bytes \<open>bs\<close> written into a buffer from the index \<open>e\<close> on.
\<close>

definition utf8_encoding :: "nat \<Rightarrow> byte list" where
  "utf8_encoding cp =
     (if cp < 0x80 then [of_nat cp]
      else if cp < 0x800 then [of_nat (0xC0 + cp div 64), of_nat (0x80 + cp mod 64)]
      else if cp < 0x10000 then
        [of_nat (0xE0 + cp div 4096), of_nat (0x80 + cp div 64 mod 64), of_nat (0x80 + cp mod 64)]
      else
        [of_nat (0xF0 + cp div 262144), of_nat (0x80 + cp div 4096 mod 64),
         of_nat (0x80 + cp div 64 mod 64), of_nat (0x80 + cp mod 64)])"

fun put_bytes :: "byte list \<Rightarrow> nat \<Rightarrow> byte list \<Rightarrow> byte list" where
  "put_bytes inp e [] = inp"
| "put_bytes inp e (b # bs) = put_bytes (inp[e := b]) (e + 1) bs"

lemma or_plus_nat: "b < 2 ^ k \<Longrightarrow> push_bit k a OR b = push_bit k a + (b :: nat)"
proof -
  assume "b < 2 ^ k"
  then have b: "take_bit k b = b" by (rule take_bit_nat_eq_self)
  have "push_bit k a AND take_bit k b = 0"
    by (rule bit_eqI) (auto simp: bit_simps)
  then show ?thesis by (simp add: b disjunctive_add_eq_or)
qed

lemma or_lead:
  "b < 64 \<Longrightarrow> (128 :: nat) OR b = 128 + b"
  "b < 32 \<Longrightarrow> (192 :: nat) OR b = 192 + b"
  "b < 16 \<Longrightarrow> (224 :: nat) OR b = 224 + b"
  "b < 8 \<Longrightarrow> (240 :: nat) OR b = 240 + b"
  using or_plus_nat [of b 6 2] or_plus_nat [of b 5 6] or_plus_nat [of b 4 14]
    or_plus_nat [of b 3 30]
  by (simp_all add: push_bit_eq_mult)

lemma and_63: "(n :: nat) AND 63 = n mod 64"
proof -
  have "n AND mask 6 = n mod 64"
    by (simp add: take_bit_eq_mask [symmetric] take_bit_eq_mod)
  moreover have "(mask 6 :: nat) = 63" by (simp add: mask_eq_exp_minus_1)
  ultimately show ?thesis by simp
qed

lemma unat_or32: "unat (a OR b :: 32 word) = unat a OR unat b"
  by (simp add: unsigned_or_eq)

lemma unat_and32: "unat (a AND b :: 32 word) = unat a AND unat b"
  by (simp add: unsigned_and_eq)

lemma ucast_byte: "(ucast (w :: 32 word) :: byte) = of_nat (unat w)"
  by simp

lemma write_utf8_refines:
  assumes "unat cp < 0x200000"
  shows "write_utf8 cp inp e =
     (put_bytes inp e (utf8_encoding (unat cp)), e + length (utf8_encoding (unat cp)))"
proof -
  have lt: "(cp < w) = (unat cp < unat w)" for w by (simp add: word_less_nat_alt)
  have d6: "unat (drop_bit 6 cp) = unat cp div 64"
    and d12: "unat (drop_bit 12 cp) = unat cp div 4096"
    and d18: "unat (drop_bit 18 cp) = unat cp div 262144"
    by (simp_all add: unat_drop_bit_eq drop_bit_eq_div unat_div_distrib)
  have e3: "e + 3 = Suc (Suc (Suc e))" by simp
  show ?thesis
    using assms
    by (auto simp: write_utf8_def utf8_encoding_def lt ucast_byte unat_or32 unat_and32
        d6 d12 d18 and_63 or_lead e3 simp del: of_nat_unat)
qed

lemma utf8_encoding_length:
  "length (utf8_encoding cp) =
     (if cp < 0x80 then 1 else if cp < 0x800 then 2 else if cp < 0x10000 then 3 else 4)"
  by (simp add: utf8_encoding_def)

lemma unat_bounds32:
  fixes u :: "32 word"
  shows "(a \<le> u) = (unat a \<le> unat u)" and "(u < a) = (unat u < unat a)"
  by (simp_all add: word_le_nat_alt word_less_nat_alt)

lemma slow_iteration_unicode:
  assumes "p + 6 \<le> length inp" and "inp ! p = ch CHR 0x5C" and "inp ! (p + 1) = ch CHR ''u''"
  shows "slow_iteration inp p e = parse_unicode_escape inp (p + 1) e"
    and "has_remaining_characters inp (p + 1 + 1) 4"
  using assms by (simp_all add: slow_iteration_def has_remaining_characters_def)

text \<open>
  C9. In the slow string path an escape \<^verbatim>\<open>\uXXXX\<close> whose value lies in
  \<open>[0xDC00, 0xDFFF]\<close>, a low surrogate that no high surrogate precedes, is not
  rejected: the turn of the loop writes the three bytes of the UTF-8 encoding of that
  value at \<open>end\<close>, moves \<open>end\<close> by 3 and \<open>p\<close> past the escape, and the loop goes on.
\<close>

theorem lone_low_surrogate_is_encoded:
  assumes "p + 6 \<le> length inp" and "inp ! p = ch CHR 0x5C" and "inp ! (p + 1) = ch CHR ''u''"
    and "read_hex inp (p + 2) = Inr (p1, u)" and "0xDC00 \<le> u" and "u \<le> 0xDFFF"
  shows "slow_iteration inp p e =
           Continue (put_bytes inp e (utf8_encoding (unat u))) (p + 6) (e + 3)
         \<and> utf8_encoding (unat u) =
             [0xED, of_nat (0x80 + unat u div 64 mod 64), of_nat (0x80 + unat u mod 64)]"
proof -
  from assms(5,6) have r: "0xDC00 \<le> unat u" "unat u \<le> 0xDFFF"
    by (simp_all add: unat_bounds32)
  then have div: "unat u div 4096 = 13" by simp
  from r have enc: "utf8_encoding (unat u) =
      [0xED, of_nat (0x80 + unat u div 64 mod 64), of_nat (0x80 + unat u mod 64)]"
    by (simp add: utf8_encoding_def div)
  from r have w: "write_utf8 u inp e = (put_bytes inp e (utf8_encoding (unat u)), e + 3)"
    by (simp add: write_utf8_refines utf8_encoding_length)
  have p1: "p1 = p + 2 + 4" using assms(4) by (rule read_hex_advances)
  have h: "\<not> u \<le> 0xDBFF" using r by (simp add: unat_bounds32)
  have rh: "read_hex inp (Suc (Suc p)) = Inr (p + 6, u)" using assms(4) p1 by simp
  have "parse_unicode_escape inp (p + 1) e =
      Continue (put_bytes inp e (utf8_encoding (unat u))) (p + 6) (e + 3)"
    using slow_iteration_unicode(2) [OF assms(1-3)] h
    by (simp add: parse_unicode_escape_def rh w)
  with slow_iteration_unicode(1) [OF assms(1-3)] enc show ?thesis by simp
qed

theorem lone_low_surrogate_is_encoded_witness:
  \<open>2 + 6 \<le> length (map ch (''["'' @ [CHR 0x5C] @ ''uDC00"]''))
   \<and> read_hex (map ch (''["'' @ [CHR 0x5C] @ ''uDC00"]'')) (2 + 2) = Inr (8, 0xDC00)
   \<and> slow_iteration (map ch (''["'' @ [CHR 0x5C] @ ''uDC00"]'')) 2 2
       = Continue (map ch ''["'' @ [0xED, 0xB0, 0x80] @ map ch ''C00"]'') (2 + 6) (2 + 3)
   \<and> (case parse (replicate 10 0) (map ch (''["'' @ [CHR 0x5C] @ ''uDC00"]'')) of
         None \<Rightarrow> False
       | Some d \<Rightarrow>
           is_valid d \<and>
           (case get_root d of
              None \<Rightarrow> False
            | Some r \<Rightarrow>
                as_string (doc_mem d) (doc_input d) (get_array_element (doc_mem d) r 0)
                  = [0xED, 0xB0, 0x80]))\<close>
proof -
  let ?inp = \<open>map ch (''["'' @ [CHR 0x5C] @ ''uDC00"]'')\<close>
  have h1: "2 + 6 \<le> length ?inp" by simp
  have h2: "?inp ! 2 = ch CHR 0x5C" by simp
  have h3: "?inp ! (2 + 1) = ch CHR ''u''" by simp
  have h4: "read_hex ?inp (2 + 2) = Inr (8, 0xDC00)" by code_simp
  have h5: "(0xDC00 :: 32 word) \<le> 0xDC00" by simp
  have h6: "(0xDC00 :: 32 word) \<le> 0xDFFF" by simp
  have ex: \<open>(case parse (replicate 10 0) ?inp of
         None \<Rightarrow> False
       | Some d \<Rightarrow>
           is_valid d \<and>
           (case get_root d of
              None \<Rightarrow> False
            | Some r \<Rightarrow>
                as_string (doc_mem d) (doc_input d) (get_array_element (doc_mem d) r 0)
                  = [0xED, 0xB0, 0x80]))\<close>
    by code_simp
  from lone_low_surrogate_is_encoded [OF h1 h2 h3 h4 h5 h6, of 2] h4 ex
  show ?thesis by simp
qed

text \<open>
  C3 as stated fails in its last part: a high surrogate that no \<^verbatim>\<open>\u\<close> escape follows
  does not give \<^verbatim>\<open>ERROR_INVALID_UTF16_TRAIL_SURROGATE\<close>. In \<^verbatim>\<open>["\uD800"]\<close> fewer than
  six bytes follow the escape and the error is \<^verbatim>\<open>ERROR_UNEXPECTED_END_OF_UTF16\<close>; in
  \<^verbatim>\<open>["\uD800abcdefgh"]\<close> the two bytes after it are not \<^verbatim>\<open>\u\<close> and the error is
  \<^verbatim>\<open>ERROR_EXPECTED_U\<close>.
\<close>

theorem lone_high_surrogate_counterexample:
  \<open>map_option error_code (parse (replicate 10 0) (map ch (''["'' @ [CHR 0x5C] @ ''uD800"]'')))
     = Some ERROR_UNEXPECTED_END_OF_UTF16
   \<and> map_option error_code
       (parse (replicate 18 0) (map ch (''["'' @ [CHR 0x5C] @ ''uD800abcdefgh"]'')))
     = Some ERROR_EXPECTED_U\<close>
  by code_simp

lemma surrogate_pair_codepoint:
  fixes u v :: "32 word"
  assumes "0xD800 \<le> u" and "u \<le> 0xDBFF" and "0xDC00 \<le> v" and "v \<le> 0xDFFF"
  shows "unat (0x10000 + (push_bit 10 (u - 0xD800) OR (v - 0xDC00)))
           = 0x10000 + (unat u - 0xD800) * 1024 + (unat v - 0xDC00)"
proof -
  from assms have r: "0xD800 \<le> unat u" "unat u \<le> 0xDBFF" "0xDC00 \<le> unat v" "unat v \<le> 0xDFFF"
    by (simp_all add: unat_bounds32)
  have a: "unat (u - 0xD800) = unat u - 0xD800"
    using assms(1) by (simp add: unat_sub)
  have b: "unat (v - 0xDC00) = unat v - 0xDC00"
    using assms(3) by (simp add: unat_sub)
  have "push_bit 10 (unat u - 0xD800) < (2 :: nat) ^ 32"
    using r by (simp add: push_bit_eq_mult)
  then have c: "unat (push_bit 10 (u - 0xD800)) = push_bit 10 (unat u - 0xD800)"
    by (simp add: unsigned_push_bit_eq a take_bit_nat_eq_self)
  have "unat v - 0xDC00 < 2 ^ 10" using r by simp
  then have d: "unat (push_bit 10 (u - 0xD800) OR (v - 0xDC00))
      = (unat u - 0xD800) * 1024 + (unat v - 0xDC00)"
    by (simp add: unat_or32 b c or_plus_nat) (simp add: push_bit_eq_mult)
  have "unat (0x10000 :: 32 word) + unat (push_bit 10 (u - 0xD800) OR (v - 0xDC00))
      < 2 ^ LENGTH(32)"
    using r by (simp add: d)
  then have "unat (0x10000 + (push_bit 10 (u - 0xD800) OR (v - 0xDC00)))
      = unat (0x10000 :: 32 word) + unat (push_bit 10 (u - 0xD800) OR (v - 0xDC00))"
    by (simp only: unat_add_lem)
  then show ?thesis by (simp add: d)
qed

lemma read_hex_code:
  "read_hex inp p = Inl f \<Longrightarrow> error_code f = ERROR_INVALID_UNICODE_ESCAPE"
  unfolding read_hex_def by (rule read_hex_loop_code)

text \<open>
  C3, amended. In the slow string path, after an escape \<^verbatim>\<open>\uXXXX\<close> whose value \<open>U\<close>
  lies in \<open>[0xD800, 0xDBFF]\<close> the decoder requires six more bytes, of which the first
  two are \<^verbatim>\<open>\u\<close> and the other four are hex digits of a value \<open>V\<close> in
  \<open>[0xDC00, 0xDFFF]\<close>; then it writes the four bytes of the UTF-8 encoding of the code
  point \<open>0x10000 + (((U - 0xD800) << 10) | (V - 0xDC00))\<close>, which is
  \<open>0x10000 + (U - 0xD800) * 1024 + (V - 0xDC00)\<close>, and goes on. Otherwise the parse
  fails: with \<^verbatim>\<open>ERROR_UNEXPECTED_END_OF_UTF16\<close> when fewer than six bytes remain, with
  \<^verbatim>\<open>ERROR_EXPECTED_U\<close> when the next two bytes are not \<^verbatim>\<open>\u\<close>, with
  \<^verbatim>\<open>ERROR_INVALID_UNICODE_ESCAPE\<close> when one of the four bytes after them is not a hex
  digit, and with \<^verbatim>\<open>ERROR_INVALID_UTF16_TRAIL_SURROGATE\<close> only when \<open>V\<close> lies outside
  \<open>[0xDC00, 0xDFFF]\<close>.
\<close>

theorem high_surrogate_needs_low_surrogate:
  assumes "p + 6 \<le> length inp" and "inp ! p = ch CHR 0x5C" and "inp ! (p + 1) = ch CHR ''u''"
    and "read_hex inp (p + 2) = Inr (p1, u)" and "0xD800 \<le> u" and "u \<le> 0xDBFF"
  shows "slow_iteration inp p e =
     (if \<not> has_remaining_characters inp (p + 6) 6
      then Error (make_error inp (Some (p + 6)) ERROR_UNEXPECTED_END_OF_UTF16 0)
      else if inp ! (p + 6) \<noteq> ch CHR 0x5C \<or> inp ! (p + 7) \<noteq> ch CHR ''u''
      then Error (make_error inp (Some (p + 6)) ERROR_EXPECTED_U 0)
      else
        case read_hex inp (p + 8) of
          Inl f \<Rightarrow> Error f
        | Inr (p2, v) \<Rightarrow>
            if v < 0xDC00 \<or> v > 0xDFFF
            then Error (make_error inp (Some (p + 12)) ERROR_INVALID_UTF16_TRAIL_SURROGATE 0)
            else Continue
                   (put_bytes inp e
                      (utf8_encoding (0x10000 + (unat u - 0xD800) * 1024 + (unat v - 0xDC00))))
                   (p + 12) (e + 4))
     \<and> (\<forall>f. read_hex inp (p + 8) = Inl f \<longrightarrow> error_code f = ERROR_INVALID_UNICODE_ESCAPE)"
proof -
  have p1: "p1 = p + 2 + 4" using assms(4) by (rule read_hex_advances)
  have rh: "read_hex inp (Suc (Suc p)) = Inr (p + 6, u)" using assms(4) p1 by simp
  have low: "write_utf8 (0x10000 + (push_bit 10 (u - 0xD800) OR (v - 0xDC00))) inp e =
      (put_bytes inp e
         (utf8_encoding (0x10000 + (unat u - 0xD800) * 1024 + (unat v - 0xDC00))), e + 4)"
    if "\<not> v < 0xDC00" and "\<not> v > 0xDFFF" for v
  proof -
    from that have v: "0xDC00 \<le> v" "v \<le> 0xDFFF" by simp_all
    from assms(5,6) v have r: "0xD800 \<le> unat u" "unat u \<le> 0xDBFF" "0xDC00 \<le> unat v"
        "unat v \<le> 0xDFFF"
      by (simp_all add: unat_bounds32)
    note cp = surrogate_pair_codepoint [OF assms(5,6) v]
    have "0x10000 + (unat u - 0xD800) * 1024 + (unat v - 0xDC00) < 0x200000"
      "\<not> 0x10000 + (unat u - 0xD800) * 1024 + (unat v - 0xDC00) < 0x10000"
      using r by simp_all
    then show ?thesis
      by (simp add: write_utf8_refines cp utf8_encoding_length)
  qed
  have adv: "p2 = p + 12" if "read_hex inp (p + 8) = Inr (p2, v)" for p2 v
    using read_hex_advances [OF that] by simp
  have "parse_unicode_escape inp (p + 1) e =
     (if \<not> has_remaining_characters inp (p + 6) 6
      then Error (make_error inp (Some (p + 6)) ERROR_UNEXPECTED_END_OF_UTF16 0)
      else if inp ! (p + 6) \<noteq> ch CHR 0x5C \<or> inp ! (p + 7) \<noteq> ch CHR ''u''
      then Error (make_error inp (Some (p + 6)) ERROR_EXPECTED_U 0)
      else
        case read_hex inp (p + 8) of
          Inl f \<Rightarrow> Error f
        | Inr (p2, v) \<Rightarrow>
            if v < 0xDC00 \<or> v > 0xDFFF
            then Error (make_error inp (Some (p + 12)) ERROR_INVALID_UTF16_TRAIL_SURROGATE 0)
            else Continue
                   (put_bytes inp e
                      (utf8_encoding (0x10000 + (unat u - 0xD800) * 1024 + (unat v - 0xDC00))))
                   (p + 12) (e + 4))"
    using slow_iteration_unicode(2) [OF assms(1-3)] assms(5,6)
    by (auto simp: parse_unicode_escape_def rh low Let_def add.commute
        split: sum.splits dest: adv)
  with slow_iteration_unicode(1) [OF assms(1-3)] show ?thesis
    by (simp add: read_hex_code)
qed

theorem high_surrogate_needs_low_surrogate_witness:
  \<open>2 + 6 \<le> length (map ch (''["'' @ [CHR 0x5C] @ ''uD83D'' @ [CHR 0x5C] @ ''uDE00"]''))
   \<and> read_hex (map ch (''["'' @ [CHR 0x5C] @ ''uD83D'' @ [CHR 0x5C] @ ''uDE00"]'')) (2 + 2)
       = Inr (8, 0xD83D)
   \<and> slow_iteration (map ch (''["'' @ [CHR 0x5C] @ ''uD83D'' @ [CHR 0x5C] @ ''uDE00"]'')) 2 2
       = Continue (map ch ''["'' @ [0xF0, 0x9F, 0x98, 0x80] @ map ch ''3D'' @ [0x5C]
                   @ map ch ''uDE00"]'') (2 + 12) (2 + 4)
   \<and> (case parse (replicate 16 0)
              (map ch (''["'' @ [CHR 0x5C] @ ''uD83D'' @ [CHR 0x5C] @ ''uDE00"]'')) of
         None \<Rightarrow> False
       | Some d \<Rightarrow>
           is_valid d \<and>
           (case get_root d of
              None \<Rightarrow> False
            | Some r \<Rightarrow>
                as_string (doc_mem d) (doc_input d) (get_array_element (doc_mem d) r 0)
                  = [0xF0, 0x9F, 0x98, 0x80]))\<close>
proof -
  let ?inp = \<open>map ch (''["'' @ [CHR 0x5C] @ ''uD83D'' @ [CHR 0x5C] @ ''uDE00"]'')\<close>
  have h1: "2 + 6 \<le> length ?inp" by simp
  have h2: "?inp ! 2 = ch CHR 0x5C" by simp
  have h3: "?inp ! (2 + 1) = ch CHR ''u''" by simp
  have h4: "read_hex ?inp (2 + 2) = Inr (8, 0xD83D)" by code_simp
  have h5: "(0xD800 :: 32 word) \<le> 0xD83D" by simp
  have h6: "(0xD83D :: 32 word) \<le> 0xDBFF" by simp
  have h7: "read_hex ?inp (2 + 8) = Inr (14, 0xDE00)" by code_simp
  have ex: \<open>(case parse (replicate 16 0) ?inp of
         None \<Rightarrow> False
       | Some d \<Rightarrow>
           is_valid d \<and>
           (case get_root d of
              None \<Rightarrow> False
            | Some r \<Rightarrow>
                as_string (doc_mem d) (doc_input d) (get_array_element (doc_mem d) r 0)
                  = [0xF0, 0x9F, 0x98, 0x80]))\<close>
    by code_simp
  from high_surrogate_needs_low_surrogate [OF h1 h2 h3 h4 h5 h6, of 2] h4 h7 ex
  show ?thesis by (simp add: has_remaining_characters_def utf8_encoding_def)
qed

end
